theory Spec2Isabelle
  imports Main "HOL-Library.Char_ord" "HOL-Library.List_Lexorder" "HOL-Library.Multiset"
    "HOL-Library.Word"
begin

section \<open>Python strings\<close>

text \<open>
  \<^verbatim>\<open>s.split("/")\<close>: the pieces of \<open>s\<close> between the separators; never the empty list
  (\<^verbatim>\<open>"".split("/") == [""]\<close>). The source only ever splits on the one-character
  separator \<^verbatim>\<open>"/"\<close>.
\<close>

fun py_split :: "char \<Rightarrow> string \<Rightarrow> string list" where
  "py_split c [] = [[]]"
| "py_split c (x # xs) =
     (if x = c then [] # py_split c xs
      else (case py_split c xs of
              [] \<Rightarrow> [[x]]
            | p # ps \<Rightarrow> (x # p) # ps))"

text \<open>\<^verbatim>\<open>sep.join(parts)\<close>.\<close>

fun py_join :: "string \<Rightarrow> string list \<Rightarrow> string" where
  "py_join sep [] = []"
| "py_join sep [p] = p"
| "py_join sep (p # q # ps) = p @ sep @ py_join sep (q # ps)"

text \<open>\<^verbatim>\<open>s.startswith(p)\<close>.\<close>

definition startswith :: "string \<Rightarrow> string \<Rightarrow> bool" where
  "startswith s p = (take (length p) s = p)"

section \<open>Exceptions\<close>

datatype error =
    IndexError
  | KeyError string
  | TypeError
  | ValueError string
  | FileNotFoundError string
  | AttributeError string
  | WaiterError
  | LibraryError string

section \<open>parse\_aws\_path\<close>

text \<open>
  \<^verbatim>\<open>
  def parse_aws_path(path):
      path = str(path)
      bucket = path.split("/")[2]
      key = "/".join(path.split("/")[3:])
      return bucket, key
  \<close>
  \<^verbatim>\<open>[2]\<close> raises IndexError on fewer than three pieces; the slice \<^verbatim>\<open>[3:]\<close> never raises.
\<close>

definition parse_aws_path :: "string \<Rightarrow> error + (string \<times> string)" where
  "parse_aws_path path =
     (let parts = py_split CHR ''/'' path in
      if 2 < length parts
      then Inr (parts ! 2, py_join ''/'' (drop 3 parts))
      else Inl IndexError)"

section \<open>Python values\<close>

text \<open>
  The values the code handles without a static type: parsed JSON documents and the
  responses of the cluster client. A dictionary keeps its items in insertion order;
  a float is its IEEE 754 binary64 bit pattern.
\<close>

datatype pyval =
    PNone
  | PBool bool
  | PInt int
  | PFloat "64 word"
  | PStr string
  | PList "pyval list"
  | PDict "(string \<times> pyval) list"

text \<open>Truth value testing (\<^verbatim>\<open>if v\<close>): None, False, zero of either sign and empty
  containers are false.\<close>

fun truthy :: "pyval \<Rightarrow> bool" where
  "truthy PNone = False"
| "truthy (PBool b) = b"
| "truthy (PInt i) = (i \<noteq> 0)"
| "truthy (PFloat w) = (push_bit 1 w \<noteq> 0)"
| "truthy (PStr s) = (s \<noteq> [])"
| "truthy (PList xs) = (xs \<noteq> [])"
| "truthy (PDict kvs) = (kvs \<noteq> [])"

text \<open>\<^verbatim>\<open>len(v)\<close>: TypeError on a value without a length.\<close>

fun py_len :: "pyval \<Rightarrow> error + nat" where
  "py_len (PStr s) = Inr (length s)"
| "py_len (PList xs) = Inr (length xs)"
| "py_len (PDict kvs) = Inr (length kvs)"
| "py_len _ = Inl TypeError"

text \<open>\<^verbatim>\<open>v["k"]\<close>: a dictionary looks the key up (KeyError when absent); a list or a
  string takes no string index and the other values take no index at all (TypeError).\<close>

fun getitem :: "pyval \<Rightarrow> string \<Rightarrow> error + pyval" where
  "getitem (PDict kvs) k = (case map_of kvs k of None \<Rightarrow> Inl (KeyError k) | Some v \<Rightarrow> Inr v)"
| "getitem _ k = Inl TypeError"

text \<open>\<^verbatim>\<open>v[0]\<close>: the first element of a list or string (IndexError when empty); the
  keys of the dictionaries here are strings, so \<open>0\<close> is never one of them.\<close>

fun getitem0 :: "pyval \<Rightarrow> error + pyval" where
  "getitem0 (PList xs) = (case xs of [] \<Rightarrow> Inl IndexError | x # _ \<Rightarrow> Inr x)"
| "getitem0 (PStr s) = (case s of [] \<Rightarrow> Inl IndexError | c # _ \<Rightarrow> Inr (PStr [c]))"
| "getitem0 (PDict kvs) = Inl (KeyError ''0'')"
| "getitem0 _ = Inl TypeError"

text \<open>\<^verbatim>\<open>for x in v\<close>: the elements of a list, the keys of a dictionary, the
  characters of a string; TypeError on the rest.\<close>

fun py_iter :: "pyval \<Rightarrow> error + pyval list" where
  "py_iter (PList xs) = Inr xs"
| "py_iter (PDict kvs) = Inr (map (\<lambda>(k, _). PStr k) kvs)"
| "py_iter (PStr s) = Inr (map (\<lambda>c. PStr [c]) s)"
| "py_iter _ = Inl TypeError"

text \<open>Sequencing of computations that may raise.\<close>

definition ebind :: "error + 'a \<Rightarrow> ('a \<Rightarrow> error + 'b) \<Rightarrow> error + 'b" where
  "ebind x f = (case x of Inl e \<Rightarrow> Inl e | Inr a \<Rightarrow> f a)"

text \<open>\<^verbatim>\<open>[f(x) for x in xs]\<close> where \<open>f\<close> may raise: the first exception ends it.\<close>

fun emap :: "('a \<Rightarrow> error + 'b) \<Rightarrow> 'a list \<Rightarrow> error + 'b list" where
  "emap f [] = Inr []"
| "emap f (x # xs) =
     (case f x of
        Inl e \<Rightarrow> Inl e
      | Inr y \<Rightarrow> (case emap f xs of Inl e \<Rightarrow> Inl e | Inr ys \<Rightarrow> Inr (y # ys)))"

text \<open>\<^verbatim>\<open>str(n)\<close> of an integer, as the f-strings render it.\<close>

function str_nat :: "nat \<Rightarrow> string" where
  "str_nat n =
     (if n < 10 then [''0123456789'' ! n]
      else str_nat (n div 10) @ [''0123456789'' ! (n mod 10)])"
  by pat_completeness auto
termination
  by (relation "measure id") auto

definition str_int :: "int \<Rightarrow> string" where
  "str_int i = (if i < 0 then ''-'' @ str_nat (nat (- i)) else str_nat (nat i))"

section \<open>The collaborators\<close>

text \<open>
  The code talks to three things it does not define: the ECS client (boto3), the two file
  systems (s3fs for the bucket, fsspec and pathlib for the local disk) and a few library
  and package functions. Each is a record of functions over a state \<open>'s\<close> of the outside
  world, so that every theorem holds for any behaviour of theirs. A call whose failure
  the code's logic can meet (a read, a modification time, a parse, the waiter) returns an
  error; the other calls are taken to return.
\<close>

record launch =
  taskDefinition :: string
  cluster :: string
  network_subnets :: "string list"
  command :: "string list"

record 's ecs =
  list_clusters :: "'s \<Rightarrow> string list"
  describe_subnets :: "'s \<Rightarrow> string list"
  list_task_definitions :: "'s \<Rightarrow> string \<Rightarrow> string list"
  run_task :: "'s \<Rightarrow> launch \<Rightarrow> pyval \<times> 's"
  stop_task :: "'s \<Rightarrow> string \<Rightarrow> pyval \<Rightarrow> 's"
  wait_tasks_stopped :: "'s \<Rightarrow> string \<Rightarrow> pyval list \<Rightarrow> error option \<times> 's"
  describe_tasks :: "'s \<Rightarrow> string \<Rightarrow> pyval list \<Rightarrow> pyval"

text \<open>
  \<open>path_exists\<close> is pathlib's \<^verbatim>\<open>Path(p).exists()\<close>, a lookup on the local disk whatever
  \<open>p\<close> looks like; \<open>local_exists\<close> is the local fsspec file system's.
  Modification times are integers (a time stamp).
\<close>

record 's storage =
  invalidate_cache :: "'s \<Rightarrow> 's"
  remote_exists :: "'s \<Rightarrow> string \<Rightarrow> bool"
  local_exists :: "'s \<Rightarrow> string \<Rightarrow> bool"
  path_exists :: "'s \<Rightarrow> string \<Rightarrow> bool"
  remote_glob :: "'s \<Rightarrow> string \<Rightarrow> string list"
  remote_read :: "'s \<Rightarrow> string \<Rightarrow> error + string"
  remote_write :: "'s \<Rightarrow> string \<Rightarrow> string \<Rightarrow> 's"
  remote_find :: "'s \<Rightarrow> string \<Rightarrow> string list"
  local_find :: "'s \<Rightarrow> string \<Rightarrow> string list"
  remote_modified :: "'s \<Rightarrow> string \<Rightarrow> error + int"
  local_modified :: "'s \<Rightarrow> string \<Rightarrow> error + int"
  remote_get :: "'s \<Rightarrow> string \<Rightarrow> string \<Rightarrow> 's"
  remote_put :: "'s \<Rightarrow> string \<Rightarrow> string \<Rightarrow> 's"

text \<open>A pandas frame read without a header: its rows.\<close>

type_synonym table = "string list list"

text \<open>
  \<open>APP_NAME\<close> and \<open>HOME_DIR\<close> come from the package's \<^verbatim>\<open>__init__\<close> and
  \<open>get_output_paths\<close> from its \<^verbatim>\<open>io\<close> module, neither of them in the source at hand:
  \<open>rel_home p\<close> is \<^verbatim>\<open>str(Path(p).resolve().relative_to(HOME_DIR))\<close> (\<open>None\<close> where it raises
  ValueError), \<open>home_join p\<close> is \<^verbatim>\<open>str(HOME_DIR / p)\<close>, \<open>get_output_paths\<close> the first
  component of what \<^verbatim>\<open>io.get_output_paths\<close> returns. \<open>num_add\<close> is \<^verbatim>\<open>+\<close> on two numbers.
\<close>

record libs =
  APP_NAME :: string
  get_output_paths :: "string \<Rightarrow> string \<Rightarrow> string option \<Rightarrow> string"
  rel_home :: "string \<Rightarrow> string option"
  home_join :: "string \<Rightarrow> string"
  normpath :: "string \<Rightarrow> string"
  json_loads :: "string \<Rightarrow> error + pyval"
  json_dumps :: "pyval \<Rightarrow> string"
  read_csv :: "string \<Rightarrow> error + table"
  df_concat :: "table \<Rightarrow> table \<Rightarrow> table"
  to_csv :: "table \<Rightarrow> string"
  num_add :: "pyval \<Rightarrow> pyval \<Rightarrow> error + pyval"

section \<open>The state of a run\<close>

text \<open>
  The requests the code sends out, in order: to the cluster (launch, stop, wait,
  describe), to the bucket from the reducer (glob, read, write) and between bucket and
  disk from the synchronizer (download, upload). The look-ups of \<^verbatim>\<open>_init_cluster\<close>,
  the existence tests, \<^verbatim>\<open>find\<close>, the modification times and the invalidation of the
  listing cache are not recorded.
\<close>

datatype event =
    RunTask launch
  | StopTask string pyval
  | WaitStopped string "pyval list"
  | DescribeTasks string "pyval list"
  | Glob string
  | Read string
  | Write string string
  | Get string string
  | Put string string

text \<open>
  The \<^verbatim>\<open>AWS\<close> object's lazily set attributes (\<open>None\<close>: the attribute is absent), the
  outside world and the trace of requests. An exception leaves the state as it was when
  it was raised, so every operation returns its outcome together with the state.
\<close>

record 's machine =
  subnets :: "string list option"
  task_definition :: "string option"
  world :: 's
  trace :: "event list"

definition emit :: "event \<Rightarrow> 's machine \<Rightarrow> 's machine" where
  "emit ev m = m\<lparr>trace := trace m @ [ev]\<rparr>"

definition cluster_name :: "libs \<Rightarrow> string" where
  "cluster_name L = APP_NAME L @ ''-cluster''"

section \<open>AWS.exists\<close>

text \<open>
  \<^verbatim>\<open>
  if path.startswith("s3://"): fs = self.remote
  else:
      path = str(Path(path).resolve().relative_to(HOME_DIR)); fs = self.local
  return fs.exists(path)
  \<close>
\<close>

definition aws_exists :: "'s storage \<Rightarrow> libs \<Rightarrow> string \<Rightarrow> 's \<Rightarrow> error + bool" where
  "aws_exists S L path w =
     (if startswith path ''s3://'' then Inr (remote_exists S w path)
      else (case rel_home L path of
              None \<Rightarrow> Inl (ValueError ''path is not in the subpath of HOME_DIR'')
            | Some p \<Rightarrow> Inr (local_exists S w p)))"

section \<open>AWS.combine\_parallel\_results\<close>

text \<open>
  \<^verbatim>\<open>results += r\<close> for \<open>results\<close> other than None: a list is extended by the elements
  of any iterable, a string takes a string, a number a number.
\<close>

fun is_number :: "pyval \<Rightarrow> bool" where
  "is_number (PBool _) = True"
| "is_number (PInt _) = True"
| "is_number (PFloat _) = True"
| "is_number _ = False"

fun iadd :: "libs \<Rightarrow> pyval \<Rightarrow> pyval \<Rightarrow> error + pyval" where
  "iadd L (PList xs) r = (case py_iter r of Inl e \<Rightarrow> Inl e | Inr ys \<Rightarrow> Inr (PList (xs @ ys)))"
| "iadd L (PStr s) r = (case r of PStr t \<Rightarrow> Inr (PStr (s @ t)) | _ \<Rightarrow> Inl TypeError)"
| "iadd L (PDict kvs) r = Inl TypeError"
| "iadd L PNone r = Inl TypeError"
| "iadd L a r = (if is_number r then num_add L a r else Inl TypeError)"

text \<open>\<^verbatim>\<open>if isinstance(r, dict): r = [v for _, v in r.items() if v]\<close>\<close>

fun to_list :: "pyval \<Rightarrow> pyval" where
  "to_list (PDict kvs) = PList (filter truthy (map snd kvs))"
| "to_list r = r"

text \<open>
  The loop over the files of one kind (lines 287 to 310). The extension does not change
  during the loop, so its two branches are two functions: the JSON one accumulates a
  Python value (\<open>PNone\<close> at the start, and \<^verbatim>\<open>results is None\<close> is asked again for every
  file), the CSV one a frame.
\<close>

fun load_json_files ::
  "'s storage \<Rightarrow> libs \<Rightarrow> string list \<Rightarrow> pyval \<Rightarrow> 's machine \<Rightarrow> (error + pyval) \<times> 's machine"
where
  "load_json_files S L [] results m = (Inr results, m)"
| "load_json_files S L (f # files) results m =
     (let m1 = emit (Read f) m in
      case remote_read S (world m) f of
        Inl e \<Rightarrow> (Inl e, m1)
      | Inr bytes \<Rightarrow>
          (case json_loads L bytes of
             Inl e \<Rightarrow> (Inl e, m1)
           | Inr r0 \<Rightarrow>
               (let r = to_list r0 in
                if results = PNone then load_json_files S L files r m1
                else (case iadd L results r of
                        Inl e \<Rightarrow> (Inl e, m1)
                      | Inr res \<Rightarrow> load_json_files S L files res m1))))"

fun load_csv_files ::
  "'s storage \<Rightarrow> libs \<Rightarrow> string list \<Rightarrow> table option \<Rightarrow> 's machine
     \<Rightarrow> (error + table option) \<times> 's machine"
where
  "load_csv_files S L [] results m = (Inr results, m)"
| "load_csv_files S L (f # files) results m =
     (let m1 = emit (Read f) m in
      case remote_read S (world m) f of
        Inl e \<Rightarrow> (Inl e, m1)
      | Inr bytes \<Rightarrow>
          (case read_csv L bytes of
             Inl e \<Rightarrow> (Inl e, m1)
           | Inr r \<Rightarrow>
               (case results of
                  None \<Rightarrow> load_csv_files S L files (Some r) m1
                | Some res \<Rightarrow> load_csv_files S L files (Some (df_concat L res r)) m1)))"

text \<open>Lines 313 to 316: the combined file sits one level above the chunks.\<close>

definition combined_filename :: "libs \<Rightarrow> string \<Rightarrow> string \<Rightarrow> string \<Rightarrow> string" where
  "combined_filename L output_folder tag extension =
     (let filename = output_folder @ ''/../'' @ tag @ extension;
          filename = (if startswith filename ''s3://'' then drop 5 filename else filename)
      in ''s3://'' @ normpath L filename)"

definition no_files_message :: "string \<Rightarrow> string \<Rightarrow> string \<Rightarrow> string" where
  "no_files_message dataset flavor output_folder =
     ''No files found for dataset '' @ [CHR 0x27] @ dataset @ [CHR 0x27] @ '' and kind ''
       @ [CHR 0x27] @ flavor @ [CHR 0x27] @ '' in output folder ''
       @ [CHR 0x27] @ output_folder @ [CHR 0x27]"

definition write_file :: "'s storage \<Rightarrow> string \<Rightarrow> string \<Rightarrow> 's machine \<Rightarrow> 's machine" where
  "write_file S filename text m =
     emit (Write filename text) (m\<lparr>world := remote_write S (world m) filename text\<rparr>)"

text \<open>
  One pass of the loop over the kinds (lines 270 to 329), for the \<open>i\<close>-th pair of tag and
  extension; it returns the name of the file it wrote. The length of the result is
  only asked for in the first pass (the log line at 322), where it raises on a value
  without a length; a frame always has one. The frame of the CSV pass is never None
  after a loop over at least one file; that \<open>None\<close> case stands for the AttributeError of
  \<^verbatim>\<open>None.to_csv\<close>.
\<close>

definition combine_kind ::
  "'s storage \<Rightarrow> libs \<Rightarrow> string \<Rightarrow> string \<Rightarrow> string \<Rightarrow> nat \<Rightarrow> string \<Rightarrow> string
     \<Rightarrow> 's machine \<Rightarrow> (error + string) \<times> 's machine"
where
  "combine_kind S L flavor dataset output_folder i tag extension m =
     (let pattern = output_folder @ ''/'' @ tag @ ''*'' @ extension;
          files = sort (remote_glob S (world m) pattern);
          m1 = emit (Glob pattern) m;
          filename = combined_filename L output_folder tag extension
      in
      if length files = 0
      then (Inl (ValueError (no_files_message dataset flavor output_folder)), m1)
      else if extension = ''.json'' then
        (case load_json_files S L files PNone m1 of
           (Inl e, m2) \<Rightarrow> (Inl e, m2)
         | (Inr results, m2) \<Rightarrow>
             (case (if i = 0 then py_len results else Inr 0) of
                Inl e \<Rightarrow> (Inl e, m2)
              | Inr _ \<Rightarrow> (Inr filename, write_file S filename (json_dumps L results) m2)))
      else
        (case load_csv_files S L files None m1 of
           (Inl e, m2) \<Rightarrow> (Inl e, m2)
         | (Inr None, m2) \<Rightarrow> (Inl (AttributeError ''to_csv''), m2)
         | (Inr (Some results), m2) \<Rightarrow>
             (Inr filename, write_file S filename (to_csv L results) m2)))"

text \<open>
  The loop over \<^verbatim>\<open>enumerate(zip(tags, extensions))\<close>: the first exception ends it, and
  \<open>data_file\<close> is the name written by pass 0.
\<close>

fun combine_kinds ::
  "'s storage \<Rightarrow> libs \<Rightarrow> string \<Rightarrow> string \<Rightarrow> string \<Rightarrow> (nat \<times> string \<times> string) list
     \<Rightarrow> pyval \<Rightarrow> 's machine \<Rightarrow> (error + pyval) \<times> 's machine"
where
  "combine_kinds S L flavor dataset output_folder [] data_file m = (Inr data_file, m)"
| "combine_kinds S L flavor dataset output_folder ((i, tag, extension) # kinds) data_file m =
     (case combine_kind S L flavor dataset output_folder i tag extension m of
        (Inl e, m1) \<Rightarrow> (Inl e, m1)
      | (Inr filename, m1) \<Rightarrow>
          combine_kinds S L flavor dataset output_folder kinds
            (if i = 0 then PStr filename else data_file) m1)"

definition kinds_of :: "string \<Rightarrow> (nat \<times> string \<times> string) list" where
  "kinds_of flavor = [(0, flavor @ ''_results'', ''.json''), (1, flavor @ ''_input'', ''.csv'')]"

definition combine_parallel_results ::
  "'s storage \<Rightarrow> libs \<Rightarrow> string \<Rightarrow> string \<Rightarrow> string \<Rightarrow> 's machine
     \<Rightarrow> (error + pyval) \<times> 's machine"
where
  "combine_parallel_results S L flavor dataset output_folder m =
     (let m1 = m\<lparr>world := invalidate_cache S (world m)\<rparr> in
      case aws_exists S L output_folder (world m1) of
        Inl e \<Rightarrow> (Inl e, m1)
      | Inr False \<Rightarrow>
          (Inl (FileNotFoundError
             (''Output folder does not exist for parallel results: '' @ [CHR 0x27]
                @ output_folder @ [CHR 0x27])), m1)
      | Inr True \<Rightarrow>
          combine_kinds S L flavor dataset output_folder (kinds_of flavor) PNone m1)"

section \<open>AWS.\_init\_cluster\<close>

text \<open>
  Lines 68 to 87. \<^verbatim>\<open>self.subnets\<close> is set before the task definitions are listed, so
  an IndexError at \<^verbatim>\<open>[-1]\<close> leaves the object with subnets and no task definition.
\<close>

definition init_cluster :: "'s ecs \<Rightarrow> libs \<Rightarrow> 's machine \<Rightarrow> error option \<times> 's machine" where
  "init_cluster E L m =
     (let cluster_names = map (\<lambda>c. last (py_split CHR ''/'' c)) (list_clusters E (world m)) in
      if cluster_name L \<notin> set cluster_names
      then (Some (ValueError (''Missing ECS cluster: '' @ cluster_name L)), m)
      else
        (let m1 = m\<lparr>subnets := Some (describe_subnets E (world m))\<rparr>;
             tasks = list_task_definitions E (world m) (APP_NAME L)
         in if tasks = [] then (Some IndexError, m1)
            else (None, m1\<lparr>task_definition := Some (last tasks)\<rparr>)))"

section \<open>AWS.submit\_jobs\<close>

text \<open>
  The arguments of \<^verbatim>\<open>submit_jobs\<close>, with the types of their defaults. The argument
  \<^verbatim>\<open>pid\<close> is overwritten by the loop variable before it is read and is left out.
\<close>

record job =
  flavor :: string
  dataset :: string
  search_by :: "string option"
  tag :: "string option"
  dry_run :: bool
  sample :: "int option"
  log_freq :: int
  seed :: int
  errors :: string
  sleep :: int
  interval :: int
  time_limit :: int
  output_folder :: "string option"
  debug :: bool
  ntasks :: int
  wait :: bool

text \<open>Lines 136 to 169, given the output folder that \<^verbatim>\<open>io.get_output_paths\<close> returned.\<close>

definition base_command :: "libs \<Rightarrow> job \<Rightarrow> string \<Rightarrow> string list" where
  "base_command L j out =
     [''run'', APP_NAME L, ''scrape'', flavor j, dataset j,
      ''--nprocs='' @ str_int (ntasks j),
      ''--sleep='' @ str_int (sleep j),
      ''--errors='' @ errors j,
      ''--log-freq='' @ str_int (log_freq j),
      ''--seed='' @ str_int (seed j),
      ''--interval='' @ str_int (interval j),
      ''--time-limit='' @ str_int (time_limit j)]
     @ (case search_by j of None \<Rightarrow> [] | Some s \<Rightarrow> [''--search-by='' @ s])
     @ (case sample j of None \<Rightarrow> [] | Some n \<Rightarrow> [''--sample='' @ str_int n])
     @ (case tag j of None \<Rightarrow> [] | Some t \<Rightarrow> [''--tag='' @ t])
     @ (if dry_run j then [''--dry-run''] else [])
     @ (if debug j then [''--debug''] else [])
     @ [''--output-folder='' @ out]"

text \<open>\<^verbatim>\<open>range(0, ntasks)\<close>\<close>

definition py_range :: "int \<Rightarrow> int list" where
  "py_range n = map int [0..<nat n]"

text \<open>
  The loop of lines 173 to 192: one \<^verbatim>\<open>run_task\<close> per partition index, the responses
  collected in order. \<^verbatim>\<open>self.task_definition\<close> is read in every pass.
\<close>

text \<open>The keyword arguments of \<^verbatim>\<open>run_task\<close> (lines 179 to 190) for one partition index.\<close>

definition launch_request :: "libs \<Rightarrow> string \<Rightarrow> string list \<Rightarrow> string list \<Rightarrow> int \<Rightarrow> launch" where
  "launch_request L td subs base pid =
     \<lparr>taskDefinition = td, cluster = cluster_name L, network_subnets = subs,
      command = base @ [''--pid='' @ str_int pid]\<rparr>"

fun launch_all ::
  "'s ecs \<Rightarrow> libs \<Rightarrow> string list \<Rightarrow> string list \<Rightarrow> int list \<Rightarrow> 's machine
     \<Rightarrow> (error + pyval list) \<times> 's machine"
where
  "launch_all E L subs base [] m = (Inr [], m)"
| "launch_all E L subs base (pid # pids) m =
     (case task_definition m of
        None \<Rightarrow> (Inl (AttributeError ''task_definition''), m)
      | Some td \<Rightarrow>
          (let req = launch_request L td subs base pid;
               (task, w1) = run_task E (world m) req;
               m1 = emit (RunTask req) (m\<lparr>world := w1\<rparr>)
           in case launch_all E L subs base pids m1 of
                (Inl e, m2) \<Rightarrow> (Inl e, m2)
              | (Inr tasks, m2) \<Rightarrow> (Inr (task # tasks), m2)))"

text \<open>
  Lines 201 to 204 for one launch result:
  \<^verbatim>\<open>
  if not len(task["tasks"]) and len(task["tasks"]["failures"]):
      failed = True
      reason = task["tasks"]["failures"][0]["reason"]
  \<close>
  The result is whether the branch is taken; the second operand of \<^verbatim>\<open>and\<close> is evaluated
  only when the first is true, and it indexes \<^verbatim>\<open>task["tasks"]\<close>, not \<^verbatim>\<open>task\<close>.
\<close>

definition launch_failed :: "pyval \<Rightarrow> error + bool" where
  "launch_failed task =
     ebind (getitem task ''tasks'') (\<lambda>t.
     ebind (py_len t) (\<lambda>n.
       if n = 0 then
         ebind (getitem t ''failures'') (\<lambda>f.
         ebind (py_len f) (\<lambda>k.
           if k \<noteq> 0 then
             ebind (getitem0 f) (\<lambda>f0.
             ebind (getitem f0 ''reason'') (\<lambda>reason. Inr True))
           else Inr False))
       else Inr False))"

fun check_provisioning :: "pyval list \<Rightarrow> bool \<Rightarrow> error + bool" where
  "check_provisioning [] failed = Inr failed"
| "check_provisioning (task # tasks) failed =
     (case launch_failed task of
        Inl e \<Rightarrow> Inl e
      | Inr b \<Rightarrow> check_provisioning tasks (failed \<or> b))"

text \<open>\<^verbatim>\<open>tasks = [task for task in tasks if len(task["tasks"])]\<close>\<close>

fun trim_successful :: "pyval list \<Rightarrow> error + pyval list" where
  "trim_successful [] = Inr []"
| "trim_successful (task # tasks) =
     ebind (getitem task ''tasks'') (\<lambda>t.
     ebind (py_len t) (\<lambda>n.
     ebind (trim_successful tasks) (\<lambda>rest.
       Inr (if n \<noteq> 0 then task # rest else rest))))"

text \<open>\<^verbatim>\<open>task["tasks"][0]["taskArn"]\<close>\<close>

definition task_arn :: "pyval \<Rightarrow> error + pyval" where
  "task_arn task =
     ebind (getitem task ''tasks'') (\<lambda>t.
     ebind (getitem0 t) (\<lambda>t0. getitem t0 ''taskArn''))"

text \<open>Lines 211 to 214: stop the tasks that were provisioned.\<close>

fun stop_all :: "'s ecs \<Rightarrow> libs \<Rightarrow> pyval list \<Rightarrow> 's machine \<Rightarrow> error option \<times> 's machine" where
  "stop_all E L [] m = (None, m)"
| "stop_all E L (task # tasks) m =
     (case task_arn task of
        Inl e \<Rightarrow> (Some e, m)
      | Inr arn \<Rightarrow>
          stop_all E L tasks
            (emit (StopTask (cluster_name L) arn)
               (m\<lparr>world := stop_task E (world m) (cluster_name L) arn\<rparr>)))"

text \<open>\<^verbatim>\<open>task["containers"][0]["exitCode"]\<close>\<close>

definition exit_code :: "pyval \<Rightarrow> error + pyval" where
  "exit_code task =
     ebind (getitem task ''containers'') (\<lambda>c.
     ebind (getitem0 c) (\<lambda>c0. getitem c0 ''exitCode''))"

text \<open>
  Lines 198 to 248, the path taken when \<^verbatim>\<open>wait\<close> is true: the provisioning check, the
  trimming to the provisioned tasks, the stop of all of them and the ValueError when the
  check set \<open>failed\<close>; otherwise the wait, the exit codes (a warning, nothing else, when
  one is not zero) and the combination of the chunks.
\<close>

definition finish_jobs ::
  "'s ecs \<Rightarrow> 's storage \<Rightarrow> libs \<Rightarrow> job \<Rightarrow> string \<Rightarrow> pyval list \<Rightarrow> 's machine
     \<Rightarrow> (error + pyval) \<times> 's machine"
where
  "finish_jobs E S L j out tasks m =
     (case check_provisioning tasks False of
        Inl e \<Rightarrow> (Inl e, m)
      | Inr failed \<Rightarrow>
          (case trim_successful tasks of
             Inl e \<Rightarrow> (Inl e, m)
           | Inr provisioned \<Rightarrow>
               if failed then
                 (case stop_all E L provisioned m of
                    (Some e, m1) \<Rightarrow> (Inl e, m1)
                  | (None, m1) \<Rightarrow>
                      (Inl (ValueError ''Error provisioning some tasks; all tasks stopped.''), m1))
               else
                 (case emap task_arn provisioned of
                    Inl e \<Rightarrow> (Inl e, m)
                  | Inr task_ids \<Rightarrow>
                      (let (r, w1) = wait_tasks_stopped E (world m) (cluster_name L) task_ids;
                           m1 = emit (WaitStopped (cluster_name L) task_ids) (m\<lparr>world := w1\<rparr>)
                       in case r of
                            Some e \<Rightarrow> (Inl e, m1)
                          | None \<Rightarrow>
                              (let task_results = describe_tasks E w1 (cluster_name L) task_ids;
                                   m2 = emit (DescribeTasks (cluster_name L) task_ids) m1
                               in case ebind (getitem task_results ''tasks'') py_iter of
                                    Inl e \<Rightarrow> (Inl e, m2)
                                  | Inr described \<Rightarrow>
                                      (case emap exit_code described of
                                         Inl e \<Rightarrow> (Inl e, m2)
                                       | Inr exit_codes \<Rightarrow>
                                           combine_parallel_results S L (flavor j) (dataset j)
                                             (''s3://'' @ APP_NAME L @ ''/'' @ out @ ''/chunks'')
                                             m2))))))"

text \<open>
  Lines 124 and 125: \<^verbatim>\<open>if not hasattr(self, "subnets"): self._init_cluster()\<close>.
  Then \<^verbatim>\<open>submit_jobs\<close>: with \<^verbatim>\<open>wait\<close> false the function ends in a bare \<^verbatim>\<open>return\<close>
  (line 196), whose value is None.
\<close>

definition resolve_cluster :: "'s ecs \<Rightarrow> libs \<Rightarrow> 's machine \<Rightarrow> error option \<times> 's machine" where
  "resolve_cluster E L m = (case subnets m of None \<Rightarrow> init_cluster E L m | Some _ \<Rightarrow> (None, m))"

definition submit_jobs ::
  "'s ecs \<Rightarrow> 's storage \<Rightarrow> libs \<Rightarrow> job \<Rightarrow> 's machine \<Rightarrow> (error + pyval) \<times> 's machine"
where
  "submit_jobs E S L j m =
     (case resolve_cluster E L m of
        (Some e, m1) \<Rightarrow> (Inl e, m1)
      | (None, m1) \<Rightarrow>
          (case subnets m1 of
             None \<Rightarrow> (Inl (AttributeError ''subnets''), m1)
           | Some subs \<Rightarrow>
               (let out = get_output_paths L (flavor j) (dataset j) (output_folder j);
                    base = base_command L j out
                in case launch_all E L subs base (py_range (ntasks j)) m1 of
                     (Inl e, m2) \<Rightarrow> (Inl e, m2)
                   | (Inr tasks, m2) \<Rightarrow>
                       if \<not> wait j then (Inr PNone, m2)
                       else finish_jobs E S L j out tasks m2)))"

section \<open>AWS.sync\<close>

text \<open>The variable \<^verbatim>\<open>SOURCE\<close>: \<^verbatim>\<open>"aws"\<close> or \<^verbatim>\<open>"local"\<close>.\<close>

datatype direction = FromAws | FromLocal

text \<open>Line 391: the path without its first segment.\<close>

definition source_file_key :: "string \<Rightarrow> string" where
  "source_file_key source_file = py_join ''/'' (drop 1 (py_split CHR ''/'' source_file))"

text \<open>Line 394.\<close>

definition dest_file_of :: "string \<Rightarrow> string \<Rightarrow> string" where
  "dest_file_of dest source_file = dest @ ''/'' @ source_file_key source_file"

text \<open>
  The condition of lines 397 to 399. The existence test is pathlib's, on the local disk,
  in both directions; the modification times are only read when it finds the file, the
  source's first.
\<close>

definition out_of_date ::
  "'s storage \<Rightarrow> direction \<Rightarrow> string \<Rightarrow> string \<Rightarrow> 's \<Rightarrow> error + bool"
where
  "out_of_date S SOURCE source_file dest_file w =
     (if \<not> path_exists S w dest_file then Inr True
      else
        ebind (case SOURCE of FromAws \<Rightarrow> remote_modified S w source_file
                            | FromLocal \<Rightarrow> local_modified S w source_file) (\<lambda>sm.
        ebind (case SOURCE of FromAws \<Rightarrow> local_modified S w dest_file
                            | FromLocal \<Rightarrow> remote_modified S w dest_file) (\<lambda>dm.
          Inr (sm > dm))))"

text \<open>Lines 404 to 407.\<close>

definition copy_file ::
  "'s storage \<Rightarrow> libs \<Rightarrow> direction \<Rightarrow> string \<Rightarrow> string \<Rightarrow> 's machine \<Rightarrow> 's machine"
where
  "copy_file S L SOURCE source_file dest_file m =
     (case SOURCE of
        FromAws \<Rightarrow>
          emit (Get source_file (home_join L dest_file))
            (m\<lparr>world := remote_get S (world m) source_file (home_join L dest_file)\<rparr>)
      | FromLocal \<Rightarrow>
          emit (Put (home_join L source_file) dest_file)
            (m\<lparr>world := remote_put S (world m) (home_join L source_file) dest_file\<rparr>))"

text \<open>The body of the loop (lines 386 to 407) for one file that \<^verbatim>\<open>find\<close> returned.\<close>

definition sync_file ::
  "'s storage \<Rightarrow> libs \<Rightarrow> direction \<Rightarrow> string \<Rightarrow> bool \<Rightarrow> string \<Rightarrow> 's machine
     \<Rightarrow> error option \<times> 's machine"
where
  "sync_file S L SOURCE dest dry source_file0 m =
     (case (case SOURCE of
              FromAws \<Rightarrow> Some source_file0
            | FromLocal \<Rightarrow> rel_home L source_file0) of
        None \<Rightarrow> (Some (ValueError ''path is not in the subpath of HOME_DIR''), m)
      | Some source_file \<Rightarrow>
          (let dest_file = dest_file_of dest source_file in
           case out_of_date S SOURCE source_file dest_file (world m) of
             Inl e \<Rightarrow> (Some e, m)
           | Inr stale \<Rightarrow>
               if stale \<and> \<not> dry then (None, copy_file S L SOURCE source_file dest_file m)
               else (None, m)))"

fun sync_files ::
  "'s storage \<Rightarrow> libs \<Rightarrow> direction \<Rightarrow> string \<Rightarrow> bool \<Rightarrow> string list \<Rightarrow> 's machine
     \<Rightarrow> error option \<times> 's machine"
where
  "sync_files S L SOURCE dest dry [] m = (None, m)"
| "sync_files S L SOURCE dest dry (f # files) m =
     (case sync_file S L SOURCE dest dry f m of
        (Some e, m1) \<Rightarrow> (Some e, m1)
      | (None, m1) \<Rightarrow> sync_files S L SOURCE dest dry files m1)"

text \<open>
  \<^verbatim>\<open>sync(source, dest, dry_run)\<close>: the side that starts with \<^verbatim>\<open>s3://\<close> is the bucket, the
  other one is made relative to \<open>HOME_DIR\<close>.
\<close>

definition sync ::
  "'s storage \<Rightarrow> libs \<Rightarrow> string \<Rightarrow> string \<Rightarrow> bool \<Rightarrow> 's machine \<Rightarrow> error option \<times> 's machine"
where
  "sync S L source dest dry m =
     (if startswith source ''s3://'' then
        (case rel_home L dest of
           None \<Rightarrow> (Some (ValueError ''path is not in the subpath of HOME_DIR''), m)
         | Some d \<Rightarrow> sync_files S L FromAws d dry (remote_find S (world m) source) m)
      else if startswith dest ''s3://'' then
        (case rel_home L source of
           None \<Rightarrow> (Some (ValueError ''path is not in the subpath of HOME_DIR''), m)
         | Some src \<Rightarrow> sync_files S L FromLocal dest dry (local_find S (world m) src) m)
      else (Some (ValueError ''One of source or dest should start with s3://''), m))"

section \<open>Notions used to state the properties\<close>

text \<open>The launch requests among the events of a trace, in order.\<close>

fun launches :: "event list \<Rightarrow> launch list" where
  "launches [] = []"
| "launches (RunTask r # evs) = r # launches evs"
| "launches (_ # evs) = launches evs"

text \<open>The stop requests among the events of a trace.\<close>

fun stops :: "event list \<Rightarrow> pyval list" where
  "stops [] = []"
| "stops (StopTask c arn # evs) = arn # stops evs"
| "stops (_ # evs) = stops evs"

text \<open>The copies (downloads and uploads) among the events of a trace.\<close>

fun copies :: "event list \<Rightarrow> event list" where
  "copies [] = []"
| "copies (Get p q # evs) = Get p q # copies evs"
| "copies (Put p q # evs) = Put p q # copies evs"
| "copies (_ # evs) = copies evs"

text \<open>
  The document of a partition file (its bytes, parsed), whether it is a JSON array or
  object, and the sequence it stands for: the array's elements, or the object's values
  that are true, in the object's order.
\<close>

definition document :: "'s storage \<Rightarrow> libs \<Rightarrow> 's \<Rightarrow> string \<Rightarrow> error + pyval" where
  "document S L w f = ebind (remote_read S w f) (json_loads L)"

fun listlike :: "pyval \<Rightarrow> bool" where
  "listlike (PList _) = True"
| "listlike (PDict _) = True"
| "listlike _ = False"

fun elements :: "pyval \<Rightarrow> pyval list" where
  "elements (PList xs) = xs"
| "elements (PDict kvs) = filter truthy (map snd kvs)"
| "elements _ = []"

definition holds_sequence :: "'s storage \<Rightarrow> libs \<Rightarrow> 's \<Rightarrow> string \<Rightarrow> bool" where
  "holds_sequence S L w f = (case document S L w f of Inl _ \<Rightarrow> False | Inr d \<Rightarrow> listlike d)"

definition sequence_of :: "'s storage \<Rightarrow> libs \<Rightarrow> 's \<Rightarrow> string \<Rightarrow> pyval list" where
  "sequence_of S L w f = (case document S L w f of Inl _ \<Rightarrow> [] | Inr d \<Rightarrow> elements d)"

text \<open>
  The mirror image of a source file under \<open>dest\<close>, as the specification words it: the
  file's path with the source root (and the slash after it) taken off, under \<open>dest\<close>.
\<close>

definition mirror_path :: "string \<Rightarrow> string \<Rightarrow> string \<Rightarrow> string" where
  "mirror_path root dest source_file = dest @ ''/'' @ drop (length root + 1) source_file"

section \<open>An in-memory cluster and file system\<close>

text \<open>
  One instance of the collaborators, on which the model runs on concrete inputs: a bucket
  store and a local disk as association lists from paths to files, a clock that stamps
  every file written, and a cluster that answers the launches from a prepared list.
  The working directory and \<open>HOME_DIR\<close> are both \<^verbatim>\<open>/home/u\<close>, so a relative path
  (and so is \<^verbatim>\<open>s3://bucket/x\<close> for pathlib) names a file below it; the parser and the
  printer of JSON are tabulated on the documents of each example.
\<close>

record fobj =
  mtime :: int
  body :: string

record cloud =
  objects :: "(string \<times> fobj) list"
  disk :: "(string \<times> fobj) list"
  clock :: int
  answers :: "pyval list"
  stopped :: "pyval list"

definition endswith :: "string \<Rightarrow> string \<Rightarrow> bool" where
  "endswith s p = (length p \<le> length s \<and> drop (length s - length p) s = p)"

definition s3_path :: "string \<Rightarrow> string" where
  "s3_path p = (if startswith p ''s3://'' then drop 5 p else p)"

definition cwd_path :: "string \<Rightarrow> string" where
  "cwd_path p = (if startswith p ''/'' then p else ''/home/u/'' @ p)"

definition glob_match :: "string \<Rightarrow> string \<Rightarrow> bool" where
  "glob_match pattern k =
     (case py_split CHR ''*'' pattern of
        [pre, post] \<Rightarrow>
          startswith k pre \<and> endswith k post \<and> length pre + length post \<le> length k
          \<and> CHR ''/'' \<notin> set (drop (length pre) k)
      | _ \<Rightarrow> k = pattern)"

definition under :: "string \<Rightarrow> string \<Rightarrow> bool" where
  "under root k = startswith k (root @ ''/'')"

definition store :: "string \<Rightarrow> fobj \<Rightarrow> (string \<times> fobj) list \<Rightarrow> (string \<times> fobj) list" where
  "store k v kvs = filter (\<lambda>(k', _). k' \<noteq> k) kvs @ [(k, v)]"

definition modified_of :: "(string \<times> fobj) list \<Rightarrow> string \<Rightarrow> error + int" where
  "modified_of kvs k =
     (case map_of kvs k of None \<Rightarrow> Inl (FileNotFoundError k) | Some v \<Rightarrow> Inr (mtime v))"

definition copy_into ::
  "(string \<times> fobj) list \<Rightarrow> string \<Rightarrow> string \<Rightarrow> int \<Rightarrow> (string \<times> fobj) list \<Rightarrow> (string \<times> fobj) list"
where
  "copy_into src k k' t dst =
     (case map_of src k of
        None \<Rightarrow> dst
      | Some v \<Rightarrow> store k' \<lparr>mtime = t, body = body v\<rparr> dst)"

definition mem_storage :: "cloud storage" where
  "mem_storage =
     \<lparr>invalidate_cache = (\<lambda>w. w),
      remote_exists = (\<lambda>w p. list_ex (\<lambda>(k, _). k = s3_path p \<or> under (s3_path p) k) (objects w)),
      local_exists = (\<lambda>w p. list_ex (\<lambda>(k, _). k = cwd_path p \<or> under (cwd_path p) k) (disk w)),
      path_exists = (\<lambda>w p. list_ex (\<lambda>(k, _). k = cwd_path p \<or> under (cwd_path p) k) (disk w)),
      remote_glob = (\<lambda>w p. filter (glob_match (s3_path p)) (map fst (objects w))),
      remote_read = (\<lambda>w p. case map_of (objects w) (s3_path p) of
                             None \<Rightarrow> Inl (FileNotFoundError p)
                           | Some v \<Rightarrow> Inr (body v)),
      remote_write = (\<lambda>w p text.
         w\<lparr>objects := store (s3_path p) \<lparr>mtime = clock w, body = text\<rparr> (objects w),
           clock := clock w + 1\<rparr>),
      remote_find = (\<lambda>w p. filter (under (s3_path p)) (map fst (objects w))),
      local_find = (\<lambda>w p. filter (under (cwd_path p)) (map fst (disk w))),
      remote_modified = (\<lambda>w p. modified_of (objects w) (s3_path p)),
      local_modified = (\<lambda>w p. modified_of (disk w) (cwd_path p)),
      remote_get = (\<lambda>w p q.
         w\<lparr>disk := copy_into (objects w) (s3_path p) (cwd_path q) (clock w) (disk w),
           clock := clock w + 1\<rparr>),
      remote_put = (\<lambda>w p q.
         w\<lparr>objects := copy_into (disk w) (cwd_path p) (s3_path q) (clock w) (objects w),
           clock := clock w + 1\<rparr>)\<rparr>"

fun norm_segments :: "string list \<Rightarrow> string list \<Rightarrow> string list" where
  "norm_segments [] acc = rev acc"
| "norm_segments (s # ss) acc =
     (if s = [] \<or> s = ''.'' then norm_segments ss acc
      else if s = ''..'' \<and> acc \<noteq> [] then norm_segments ss (tl acc)
      else norm_segments ss (s # acc))"

definition mem_libs :: "(string \<times> pyval) list \<Rightarrow> libs" where
  "mem_libs docs =
     \<lparr>APP_NAME = ''app'',
      get_output_paths = (\<lambda>fl ds out. case out of None \<Rightarrow> ds @ ''/'' @ fl | Some p \<Rightarrow> p),
      rel_home = (\<lambda>p. if startswith (cwd_path p) ''/home/u/'' then Some (drop 8 (cwd_path p))
                      else None),
      home_join = (\<lambda>p. ''/home/u/'' @ p),
      normpath = (\<lambda>p. py_join ''/'' (norm_segments (py_split CHR ''/'' p) [])),
      json_loads = (\<lambda>text. case map_of docs text of
                             None \<Rightarrow> Inl (LibraryError ''JSONDecodeError'')
                           | Some d \<Rightarrow> Inr d),
      json_dumps = (\<lambda>v. case filter (\<lambda>(_, d). d = v) docs of [] \<Rightarrow> ''?'' | (text, _) # _ \<Rightarrow> text),
      read_csv = (\<lambda>text. Inr (map (py_split CHR '','') (filter (\<lambda>l. l \<noteq> []) (py_split CHR 0x0A text)))),
      df_concat = (\<lambda>a b. a @ b),
      to_csv = (\<lambda>t. concat (map (\<lambda>row. py_join '','' row @ [CHR 0x0A]) t)),
      num_add = (\<lambda>a b. case (a, b) of
                          (PInt x, PInt y) \<Rightarrow> Inr (PInt (x + y))
                        | _ \<Rightarrow> Inl (LibraryError ''float''))\<rparr>"

definition no_tasks :: pyval where
  "no_tasks = PDict [(''tasks'', PList []), (''failures'', PList [])]"

definition mem_ecs :: "cloud ecs" where
  "mem_ecs =
     \<lparr>list_clusters = (\<lambda>w. [''arn:aws:ecs:us-east-1:1:cluster/app-cluster'']),
      describe_subnets = (\<lambda>w. [''subnet-1'']),
      list_task_definitions = (\<lambda>w family. [''arn:aws:ecs:us-east-1:1:task-definition/app:1'']),
      run_task = (\<lambda>w req. case answers w of
                            [] \<Rightarrow> (no_tasks, w)
                          | a # as \<Rightarrow> (a, w\<lparr>answers := as\<rparr>)),
      stop_task = (\<lambda>w c arn. w\<lparr>stopped := stopped w @ [arn]\<rparr>),
      wait_tasks_stopped = (\<lambda>w c ids. (None, w)),
      describe_tasks = (\<lambda>w c ids.
         PDict [(''tasks'',
                 PList (map (\<lambda>_. PDict [(''containers'',
                                          PList [PDict [(''exitCode'', PInt 0)]])]) ids))])\<rparr>"

text \<open>An \<^verbatim>\<open>AWS\<close> object whose cluster has not been looked up yet, and an empty trace.\<close>

definition fresh :: "'s \<Rightarrow> 's machine" where
  "fresh w = \<lparr>subnets = None, task_definition = None, world = w, trace = []\<rparr>"

section \<open>Example inputs\<close>

text \<open>A job with the default arguments, \<open>n\<close> partitions and the given \<^verbatim>\<open>wait\<close>;
  the answer of the cluster to a launch that got a task, and to one that got none.\<close>

definition scrape_job :: "int \<Rightarrow> bool \<Rightarrow> job" where
  "scrape_job n w =
     \<lparr>flavor = ''ujs'', dataset = ''sample'', search_by = None, tag = None, dry_run = False,
      sample = None, log_freq = 50, seed = 42, errors = ''ignore'', sleep = 2, interval = 1,
      time_limit = 20, output_folder = None, debug = False, ntasks = n, wait = w\<rparr>"

definition provisioned :: "string \<Rightarrow> pyval" where
  "provisioned arn =
     PDict [(''tasks'', PList [PDict [(''taskArn'', PStr arn)]]), (''failures'', PList [])]"

definition unprovisioned :: "string \<Rightarrow> pyval" where
  "unprovisioned reason =
     PDict [(''tasks'', PList []), (''failures'', PList [PDict [(''reason'', PStr reason)]])]"

definition cluster_answering :: "pyval list \<Rightarrow> cloud" where
  "cluster_answering as = \<lparr>objects = [], disk = [], clock = 0, answers = as, stopped = []\<rparr>"


text \<open>
  A bucket holding the given files (path and text), all written at time 1, with the clock
  at 10 and an empty disk; and the documents of the chunk files of the examples: an object
  of records with one empty value, an array of two records, and the array of the three
  records.
\<close>

definition bucket_with :: "(string \<times> string) list \<Rightarrow> cloud" where
  "bucket_with files =
     \<lparr>objects = map (\<lambda>(path, text). (path, \<lparr>mtime = 1, body = text\<rparr>)) files,
      disk = [], clock = 10, answers = [], stopped = []\<rparr>"

definition chunk_docs :: "(string \<times> pyval) list" where
  "chunk_docs =
     [(''{a: {x: 1}, b: {}}'', PDict [(''a'', PDict [(''x'', PInt 1)]), (''b'', PDict [])]),
      (''[{y: 2}, {z: 3}]'', PList [PDict [(''y'', PInt 2)], PDict [(''z'', PInt 3)]]),
      (''[{x: 1}, {y: 2}, {z: 3}]'',
       PList [PDict [(''x'', PInt 1)], PDict [(''y'', PInt 2)], PDict [(''z'', PInt 3)]])]"

text \<open>Three buckets: chunks of both kinds (listed out of order), no JSON chunk,
  no CSV chunk.\<close>

definition chunks_a :: cloud where
  "chunks_a = bucket_with
     [(''app/out/chunks/ujs_results_1.json'', ''[{y: 2}, {z: 3}]''),
      (''app/out/chunks/ujs_results_0.json'', ''{a: {x: 1}, b: {}}''),
      (''app/out/chunks/ujs_input_0.csv'', ''a,b'')]"

definition chunks_without_json :: cloud where
  "chunks_without_json = bucket_with [(''app/out/chunks/ujs_input_0.csv'', ''a,b'')]"

definition chunks_without_csv :: cloud where
  "chunks_without_csv = bucket_with [(''app/out/chunks/ujs_results_0.json'', ''[{y: 2}, {z: 3}]'')]"

text \<open>A bucket and a disk holding the given files (path, modification time, text); a
  bucket to mirror under \<^verbatim>\<open>/home/u/b\<close>, where one file is missing, one is older and one is as
  new; and a directory to upload whose one file is older than its copy in the bucket.\<close>

definition files_at :: "(string \<times> int \<times> string) list \<Rightarrow> (string \<times> fobj) list" where
  "files_at fs = map (\<lambda>(path, t, text). (path, \<lparr>mtime = t, body = text\<rparr>)) fs"

definition cloud_with ::
  "(string \<times> int \<times> string) list \<Rightarrow> (string \<times> int \<times> string) list \<Rightarrow> cloud" where
  "cloud_with bucket_files disk_files =
     \<lparr>objects = files_at bucket_files, disk = files_at disk_files, clock = 10,
      answers = [], stopped = []\<rparr>"


definition upload_example :: cloud where
  "upload_example =
     cloud_with [(''bucket/x.txt'', 5, ''new'')] [(''/home/u/data/x.txt'', 1, ''old'')]"

section \<open>Facts about splitting and joining\<close>

lemma py_split_not_Nil: "py_split c s \<noteq> []"
  by (induction s) (auto split: list.splits)

lemma py_split_append:
  "c \<notin> set a \<Longrightarrow> py_split c (a @ c # rest) = a # py_split c rest"
  by (induction a) auto

lemma py_join_py_split: "py_join [c] (py_split c s) = s"
proof (induction s)
  case Nil
  show ?case by simp
next
  case (Cons x xs)
  obtain p ps where sp: "py_split c xs = p # ps"
    using py_split_not_Nil [of c xs] by (cases "py_split c xs") auto
  show ?case
  proof (cases "x = c")
    case True
    with Cons sp show ?thesis by simp
  next
    case False
    with Cons sp show ?thesis by (cases ps) auto
  qed
qed

section \<open>Facts about the trace\<close>

lemma trace_emit [simp]: "trace (emit ev m) = trace m @ [ev]"
  and world_emit [simp]: "world (emit ev m) = world m"
  and subnets_emit [simp]: "subnets (emit ev m) = subnets m"
  and task_definition_emit [simp]: "task_definition (emit ev m) = task_definition m"
  by (simp_all add: emit_def)

lemma launches_append [simp]: "launches (xs @ ys) = launches xs @ launches ys"
  by (induction xs rule: launches.induct) auto

lemma stops_append [simp]: "stops (xs @ ys) = stops xs @ stops ys"
  by (induction xs rule: stops.induct) auto

lemma launches_map_RunTask [simp]: "launches (map RunTask rs) = rs"
  by (induction rs) auto

lemma stops_map_RunTask [simp]: "stops (map RunTask rs) = []"
  by (induction rs) auto

text \<open>The provisioning check never finds a failed launch.\<close>

lemma getitem_of_empty: "py_len t = Inr 0 \<Longrightarrow> \<exists>e. getitem t k = Inl e"
  by (cases t) auto

lemma launch_failed_never: "launch_failed task \<noteq> Inr True"
proof (cases "getitem task ''tasks''")
  case (Inl e)
  then show ?thesis by (simp add: launch_failed_def ebind_def)
next
  case (Inr t)
  show ?thesis
  proof (cases "py_len t")
    case (Inl e)
    with Inr show ?thesis by (simp add: launch_failed_def ebind_def)
  next
    case len: (Inr n)
    show ?thesis
    proof (cases "n = 0")
      case True
      with len obtain e where "getitem t ''failures'' = Inl e"
        using getitem_of_empty by blast
      with Inr len True show ?thesis by (simp add: launch_failed_def ebind_def)
    next
      case False
      with Inr len show ?thesis by (simp add: launch_failed_def ebind_def)
    qed
  qed
qed

lemma check_provisioning_never: "check_provisioning tasks False \<noteq> Inr True"
proof -
  have "check_provisioning tasks b = Inr True \<Longrightarrow> b" for b
  proof (induction tasks arbitrary: b)
    case Nil
    then show ?case by simp
  next
    case (Cons task tasks)
    from Cons.prems obtain x where x: "launch_failed task = Inr x"
      and rest: "check_provisioning tasks (b \<or> x) = Inr True"
      by (cases "launch_failed task") auto
    from x have "\<not> x" using launch_failed_never [of task] by auto
    with rest Cons.IH [of b] show ?case by simp
  qed
  then show ?thesis by blast
qed


lemma launches_map_RunTask_comp [simp]: "launches (map (\<lambda>x. RunTask (f x)) xs) = map f xs"
  by (induction xs) auto

lemma stops_map_RunTask_comp [simp]: "stops (map (\<lambda>x. RunTask (f x)) xs) = []"
  by (induction xs) auto


lemma launch_all_resolved:
  assumes "task_definition m = Some td"
  shows "\<exists>tasks m'. launch_all E L subs base pids m = (Inr tasks, m')
           \<and> length tasks = length pids
           \<and> trace m' = trace m @ map (\<lambda>pid. RunTask (launch_request L td subs base pid)) pids
           \<and> task_definition m' = Some td \<and> subnets m' = subnets m"
  using assms
proof (induction pids arbitrary: m)
  case Nil
  then show ?case by simp
next
  case (Cons pid pids)
  obtain task w1 where r: "run_task E (world m) (launch_request L td subs base pid) = (task, w1)"
    by (cases "run_task E (world m) (launch_request L td subs base pid)") auto
  let ?m1 = "emit (RunTask (launch_request L td subs base pid)) (m\<lparr>world := w1\<rparr>)"
  have "task_definition ?m1 = Some td" using Cons.prems by simp
  from Cons.IH [OF this] obtain tasks m' where
    rest: "launch_all E L subs base pids ?m1 = (Inr tasks, m')"
      "length tasks = length pids"
      "trace m' = trace ?m1 @ map (\<lambda>pid. RunTask (launch_request L td subs base pid)) pids"
      "task_definition m' = Some td" "subnets m' = subnets ?m1"
    by blast
  show ?case
    using Cons.prems r rest by simp
qed

lemma load_json_files_launches:
  "launches (trace (snd (load_json_files S L files r m))) = launches (trace m)
   \<and> stops (trace (snd (load_json_files S L files r m))) = stops (trace m)"
  by (induction files arbitrary: r m) (auto simp: Let_def split: sum.splits)

lemma load_csv_files_launches:
  "launches (trace (snd (load_csv_files S L files r m))) = launches (trace m)
   \<and> stops (trace (snd (load_csv_files S L files r m))) = stops (trace m)"
  by (induction files arbitrary: r m) (auto simp: Let_def split: sum.splits option.splits)

lemma combine_kind_launches:
  "launches (trace (snd (combine_kind S L fl ds out i tg ext m))) = launches (trace m)
   \<and> stops (trace (snd (combine_kind S L fl ds out i tg ext m))) = stops (trace m)"
proof -
  let ?m1 = "emit (Glob (out @ ''/'' @ tg @ ''*'' @ ext)) m"
  let ?files = "sort (remote_glob S (world m) (out @ ''/'' @ tg @ ''*'' @ ext))"
  have j: "launches (trace (snd (load_json_files S L ?files PNone ?m1))) = launches (trace m)"
      "stops (trace (snd (load_json_files S L ?files PNone ?m1))) = stops (trace m)"
    using load_json_files_launches [of S L ?files PNone ?m1] by simp_all
  have c: "launches (trace (snd (load_csv_files S L ?files None ?m1))) = launches (trace m)"
     "stops (trace (snd (load_csv_files S L ?files None ?m1))) = stops (trace m)"
    using load_csv_files_launches [of S L ?files None ?m1] by simp_all
  show ?thesis
    using j c
    by (auto simp: combine_kind_def Let_def write_file_def split: prod.splits sum.splits option.splits)
qed

lemma combine_kinds_launches:
  "launches (trace (snd (combine_kinds S L fl ds out kinds df m))) = launches (trace m)
   \<and> stops (trace (snd (combine_kinds S L fl ds out kinds df m))) = stops (trace m)"
proof (induction kinds arbitrary: df m)
  case Nil
  show ?case by simp
next
  case (Cons k kinds)
  obtain i tg ext where k: "k = (i, tg, ext)" by (cases k) auto
  obtain r m1 where c: "combine_kind S L fl ds out i tg ext m = (r, m1)"
    by (cases "combine_kind S L fl ds out i tg ext m") auto
  have "launches (trace m1) = launches (trace m)" "stops (trace m1) = stops (trace m)"
    using combine_kind_launches [of S L fl ds out i tg ext m] c by simp_all
  then show ?case
    using c k Cons.IH by (cases r) auto
qed

lemma combine_parallel_results_launches:
  "launches (trace (snd (combine_parallel_results S L fl ds out m))) = launches (trace m)
   \<and> stops (trace (snd (combine_parallel_results S L fl ds out m))) = stops (trace m)"
  using combine_kinds_launches
    [of S L fl ds out "kinds_of fl" PNone "m\<lparr>world := invalidate_cache S (world m)\<rparr>"]
  by (auto simp: combine_parallel_results_def Let_def split: sum.splits bool.splits)



lemma finish_jobs_stops:
  "stops (trace (snd (finish_jobs E S L j out tasks m))) = stops (trace m)"
proof -
  have c: "stops (trace (snd (combine_parallel_results S L fl ds p m'))) = stops (trace m')"
    for fl ds p m'
    using combine_parallel_results_launches by blast
  have n: "check_provisioning tasks False = Inr b \<Longrightarrow> \<not> b" for b
    using check_provisioning_never [of tasks] by auto
  show ?thesis
    unfolding finish_jobs_def Let_def
    by (auto simp: c split: sum.splits prod.splits option.splits dest: n)
qed

lemma resolve_cluster_trace: "trace (snd (resolve_cluster E L m)) = trace m"
  by (auto simp: resolve_cluster_def init_cluster_def Let_def split: option.splits)

lemma launch_all_stops:
  "stops (trace (snd (launch_all E L subs base pids m))) = stops (trace m)"
proof (induction pids arbitrary: m)
  case Nil
  show ?case by simp
next
  case (Cons pid pids)
  show ?case
  proof (cases "task_definition m")
    case None
    then show ?thesis by simp
  next
    case (Some td)
    obtain task w1 where r: "run_task E (world m) (launch_request L td subs base pid) = (task, w1)"
      by (cases "run_task E (world m) (launch_request L td subs base pid)") auto
    let ?m1 = "emit (RunTask (launch_request L td subs base pid)) (m\<lparr>world := w1\<rparr>)"
    have "stops (trace (snd (launch_all E L subs base pids ?m1))) = stops (trace m)"
      using Cons.IH [of ?m1] by simp
    then show ?thesis
      using Some r by (auto split: prod.splits sum.splits)
  qed
qed

lemma submit_jobs_never_stops:
  "stops (trace (snd (submit_jobs E S L j m))) = stops (trace m)"
proof -
  obtain r m1 where rc: "resolve_cluster E L m = (r, m1)"
    by (cases "resolve_cluster E L m") auto
  then have t1: "trace m1 = trace m" using resolve_cluster_trace [of E L m] by simp
  have la: "launch_all E L subs base pids m1 = (x, m2) \<Longrightarrow> stops (trace m2) = stops (trace m)"
    for subs base pids x m2
    using launch_all_stops [of E L subs base pids m1] t1 by simp
  have fj: "stops (trace (snd (finish_jobs E S L j out tasks m2))) = stops (trace m2)"
    for out tasks m2
    by (rule finish_jobs_stops)
  show ?thesis
    using rc t1
    by (auto simp: submit_jobs_def Let_def fj split: option.splits prod.splits sum.splits dest: la)
qed

section \<open>Facts about the reducer\<close>

lemma to_list_listlike: "listlike d \<Longrightarrow> to_list d = PList (elements d)"
  by (cases d) auto

lemma load_json_files_lists:
  assumes "\<forall>f \<in> set files. \<exists>d. document S L (world m) f = Inr d \<and> listlike d"
  shows "load_json_files S L files (PList acc) m =
           (Inr (PList (acc @ concat (map (\<lambda>f. elements (projr (document S L (world m) f))) files))),
            m\<lparr>trace := trace m @ map Read files\<rparr>)"
  using assms
proof (induction files arbitrary: acc m)
  case Nil
  then show ?case by simp
next
  case (Cons f files)
  from Cons.prems obtain d where d: "document S L (world m) f = Inr d" "listlike d"
    by auto
  then obtain b where b: "remote_read S (world m) f = Inr b" "json_loads L b = Inr d"
    by (auto simp: document_def ebind_def split: sum.splits)
  have rest: "\<forall>g \<in> set files. \<exists>d. document S L (world (emit (Read f) m)) g = Inr d \<and> listlike d"
    using Cons.prems by simp
  show ?case
    using b d Cons.IH [OF rest, of "acc @ elements d"]
    by (simp add: to_list_listlike emit_def)
qed

lemma load_json_files_first:
  assumes "\<forall>f \<in> set files. \<exists>d. document S L (world m) f = Inr d \<and> listlike d"
    and "files \<noteq> []"
  shows "load_json_files S L files PNone m =
           (Inr (PList (concat (map (\<lambda>f. elements (projr (document S L (world m) f))) files))),
            m\<lparr>trace := trace m @ map Read files\<rparr>)"
proof -
  from assms(2) obtain f rest where fr: "files = f # rest" by (cases files) auto
  from assms(1) fr obtain d where d: "document S L (world m) f = Inr d" "listlike d"
    by auto
  then obtain b where b: "remote_read S (world m) f = Inr b" "json_loads L b = Inr d"
    by (auto simp: document_def ebind_def split: sum.splits)
  have rest: "\<forall>g \<in> set rest. \<exists>d. document S L (world (emit (Read f) m)) g = Inr d \<and> listlike d"
    using assms(1) fr by simp
  show ?thesis
    using b d load_json_files_lists [OF rest, of "elements d"]
    by (simp add: fr to_list_listlike emit_def)
qed

lemma combine_kind_json:
  assumes files: "files = sort (remote_glob S (world m) (out @ ''/'' @ tg @ ''*.json''))"
    and ne: "files \<noteq> []"
    and docs: "\<forall>f \<in> set files. \<exists>d. document S L (world m) f = Inr d \<and> listlike d"
    and combined: "combined = PList (concat (map (\<lambda>f. elements (projr (document S L (world m) f))) files))"
    and name: "filename = combined_filename L out tg ''.json''"
  shows "combine_kind S L fl ds out i tg ''.json'' m =
           (Inr filename,
            m\<lparr>world := remote_write S (world m) filename (json_dumps L combined),
              trace := trace m @ [Glob (out @ ''/'' @ tg @ ''*.json'')] @ map Read files
                         @ [Write filename (json_dumps L combined)]\<rparr>)"
proof -
  let ?m1 = "emit (Glob (out @ ''/'' @ tg @ ''*.json'')) m"
  have docs1: "\<forall>f \<in> set files. \<exists>d. document S L (world ?m1) f = Inr d \<and> listlike d"
    using docs by simp
  have load: "load_json_files S L files PNone ?m1 =
      (Inr combined, ?m1\<lparr>trace := trace ?m1 @ map Read files\<rparr>)"
    using load_json_files_first [OF docs1 ne] combined by simp
  show ?thesis
    using ne load unfolding files name combined
    by (simp add: combine_kind_def Let_def write_file_def emit_def)
qed

lemma holds_sequence_document:
  "holds_sequence S L w f \<Longrightarrow> \<exists>d. document S L w f = Inr d \<and> listlike d"
  by (auto simp: holds_sequence_def split: sum.splits)

lemma sequence_of_document:
  "sequence_of S L w f = elements (projr (document S L w f))" if "holds_sequence S L w f"
  using that by (auto simp: holds_sequence_def sequence_of_def split: sum.splits)

lemma load_json_files_trace: "\<exists>rest. trace (snd (load_json_files S L files r m)) = trace m @ rest"
proof (induction files arbitrary: r m)
  case Nil
  show ?case by simp
next
  case (Cons f files)
  have step: "\<exists>rest. trace (snd (load_json_files S L files r' (emit (Read f) m))) = trace m @ rest"
    for r'
    using Cons.IH [of r' "emit (Read f) m"] by auto
  show ?case
    using step by (auto simp: Let_def split: sum.splits)
qed

lemma load_csv_files_trace: "\<exists>rest. trace (snd (load_csv_files S L files r m)) = trace m @ rest"
proof (induction files arbitrary: r m)
  case Nil
  show ?case by simp
next
  case (Cons f files)
  have step: "\<exists>rest. trace (snd (load_csv_files S L files r' (emit (Read f) m))) = trace m @ rest"
    for r'
    using Cons.IH [of r' "emit (Read f) m"] by auto
  show ?case
    using step by (auto simp: Let_def split: sum.splits option.splits)
qed

lemma combine_kind_trace:
  "\<exists>rest. trace (snd (combine_kind S L fl ds out i tg ext m)) = trace m @ rest"
proof -
  let ?m1 = "emit (Glob (out @ ''/'' @ tg @ ''*'' @ ext)) m"
  let ?files = "sort (remote_glob S (world m) (out @ ''/'' @ tg @ ''*'' @ ext))"
  obtain rj where j: "trace (snd (load_json_files S L ?files PNone ?m1)) = trace m @ rj"
    using load_json_files_trace [of S L ?files PNone ?m1] by auto
  obtain rc where c: "trace (snd (load_csv_files S L ?files None ?m1)) = trace m @ rc"
    using load_csv_files_trace [of S L ?files None ?m1] by auto
  show ?thesis
    using j c
    by (auto simp: combine_kind_def Let_def write_file_def split: prod.splits sum.splits option.splits)
qed

lemma combine_kinds_trace:
  "\<exists>rest. trace (snd (combine_kinds S L fl ds out kinds df m)) = trace m @ rest"
proof (induction kinds arbitrary: df m)
  case Nil
  show ?case by simp
next
  case (Cons k kinds)
  obtain i tg ext where k: "k = (i, tg, ext)" by (cases k) auto
  obtain r m1 where c: "combine_kind S L fl ds out i tg ext m = (r, m1)"
    by (cases "combine_kind S L fl ds out i tg ext m") auto
  obtain r1 where r1: "trace m1 = trace m @ r1"
    using combine_kind_trace [of S L fl ds out i tg ext m] c by auto
  show ?case
  proof (cases r)
    case (Inl e)
    with c k r1 show ?thesis by simp
  next
    case (Inr name)
    obtain r2 where "trace (snd (combine_kinds S L fl ds out kinds
        (if i = 0 then PStr name else df) m1)) = trace m1 @ r2"
      using Cons.IH by blast
    with c k r1 Inr show ?thesis by simp
  qed
qed

lemma combine_kind_no_files:
  assumes "remote_glob S (world m) (out @ ''/'' @ tg @ ''*'' @ ext) = []"
  shows "combine_kind S L fl ds out i tg ext m
           = (Inl (ValueError (no_files_message ds fl out)), emit (Glob (out @ ''/'' @ tg @ ''*'' @ ext)) m)"
  using assms by (simp add: combine_kind_def Let_def)

section \<open>Facts about the synchronizer\<close>

lemma copies_append [simp]: "copies (xs @ ys) = copies xs @ copies ys"
  by (induction xs rule: copies.induct) auto

lemma source_file_key_segment:
  "CHR ''/'' \<notin> set seg \<Longrightarrow> source_file_key (seg @ ''/'' @ rest) = rest"
  using py_split_append [of "CHR ''/''" seg rest] py_join_py_split [of "CHR ''/''" rest]
  by (simp add: source_file_key_def)

lemma sync_file_upload_always:
  assumes "rel_home L f0 = Some f"
    and "\<not> path_exists S (world m) (dest_file_of dest f)" and "\<not> dry"
  shows "sync_file S L FromLocal dest dry f0 m
           = (None, copy_file S L FromLocal f (dest_file_of dest f) m)"
  using assms by (simp add: sync_file_def out_of_date_def Let_def)

lemma sync_file_only_copies:
  "\<exists>cs. trace (snd (sync_file S L d dest dry f m)) = trace m @ cs \<and> copies cs = cs"
  by (cases d)
    (auto simp: sync_file_def copy_file_def Let_def emit_def split: option.splits sum.splits)

lemma sync_files_only_copies:
  "\<exists>cs. trace (snd (sync_files S L d dest dry files m)) = trace m @ cs \<and> copies cs = cs"
proof (induction files arbitrary: m)
  case Nil
  show ?case by simp
next
  case (Cons f files)
  obtain r m1 where s: "sync_file S L d dest dry f m = (r, m1)"
    by (cases "sync_file S L d dest dry f m") auto
  obtain c1 where c1: "trace m1 = trace m @ c1" "copies c1 = c1"
    using sync_file_only_copies [of S L d dest dry f m] s by auto
  show ?case
  proof (cases r)
    case (Some e)
    with s c1 show ?thesis by auto
  next
    case None
    obtain c2 where "trace (snd (sync_files S L d dest dry files m1)) = trace m1 @ c2"
      "copies c2 = c2"
      using Cons.IH by blast
    with s c1 None show ?thesis by auto
  qed
qed

lemma sync_only_copies:
  "\<exists>cs. trace (snd (sync S L source dest dry m)) = trace m @ cs \<and> copies cs = cs"
  using sync_files_only_copies [of S L FromAws _ dry _ m]
    sync_files_only_copies [of S L FromLocal dest dry _ m]
  by (auto simp: sync_def split: option.splits)

lemma load_json_files_world: "world (snd (load_json_files S L files r m)) = world m"
  by (induction files arbitrary: r m) (auto simp: Let_def split: sum.splits)

lemma load_csv_files_world: "world (snd (load_csv_files S L files r m)) = world m"
  by (induction files arbitrary: r m) (auto simp: Let_def split: sum.splits option.splits)

lemma combine_kind_world:
  "world (snd (combine_kind S L fl ds out i tg ext m)) = world m
   \<or> (\<exists>t. world (snd (combine_kind S L fl ds out i tg ext m))
            = remote_write S (world m) (combined_filename L out tg ext) t)"
proof -
  let ?m1 = "emit (Glob (out @ ''/'' @ tg @ ''*'' @ ext)) m"
  let ?files = "sort (remote_glob S (world m) (out @ ''/'' @ tg @ ''*'' @ ext))"
  have j: "world (snd (load_json_files S L ?files PNone ?m1)) = world m"
    using load_json_files_world [of S L ?files PNone ?m1] by simp
  have c: "world (snd (load_csv_files S L ?files None ?m1)) = world m"
    using load_csv_files_world [of S L ?files None ?m1] by simp
  show ?thesis
    using j c
    by (auto simp: combine_kind_def Let_def write_file_def split: prod.splits sum.splits option.splits)
qed

section \<open>Claims\<close>

text \<open>
  C10. For a path \<^verbatim>\<open>s3://<bucket>/<key>\<close> whose bucket has no slash (the key may have
  any), \<open>parse_aws_path\<close> returns the pair of the bucket and the key, and putting
  \<^verbatim>\<open>s3://\<close> before the bucket, a slash and the key gives the path back.
\<close>

theorem parse_aws_path_roundtrip:
  assumes "CHR ''/'' \<notin> set bucket"
  shows "parse_aws_path (''s3://'' @ bucket @ ''/'' @ key) = Inr (bucket, key)
       \<and> (\<forall>b k. parse_aws_path (''s3://'' @ bucket @ ''/'' @ key) = Inr (b, k)
            \<longrightarrow> ''s3://'' @ b @ ''/'' @ k = ''s3://'' @ bucket @ ''/'' @ key)"
proof -
  have 1: "py_split CHR ''/'' (''s3://'' @ bucket @ ''/'' @ key)
         = ''s3:'' # [] # bucket # py_split CHR ''/'' key"
    using py_split_append [OF assms, of key] by simp
  have 2: "py_join ''/'' (py_split CHR ''/'' key) = key"
    by (rule py_join_py_split)
  have "parse_aws_path (''s3://'' @ bucket @ ''/'' @ key) = Inr (bucket, key)"
    unfolding parse_aws_path_def 1 using 2 by simp
  then show ?thesis by simp
qed

theorem parse_aws_path_roundtrip_witness:
  "CHR ''/'' \<notin> set ''my-bucket''
   \<and> parse_aws_path ''s3://my-bucket/chunks/a_results_0.json''
       = Inr (''my-bucket'', ''chunks/a_results_0.json'')"
  using parse_aws_path_roundtrip [of "''my-bucket''" "''chunks/a_results_0.json''"]
  by simp



text \<open>
  C2, as amended. With \<^verbatim>\<open>wait\<close> false and the cluster resolved, \<open>submit_jobs\<close> returns
  None (not the list of launch results) right after the launches: the requests it has
  sent are the \<open>N\<close> launches in partition order and nothing else, so no task is stopped
  and nothing is waited for.
\<close>

theorem submit_jobs_no_wait:
  assumes "resolve_cluster E L m = (None, m1)"
    and "subnets m1 = Some subs" and "task_definition m1 = Some td"
    and "\<not> wait j"
    and "base = base_command L j (get_output_paths L (flavor j) (dataset j) (output_folder j))"
  shows "fst (submit_jobs E S L j m) = Inr PNone
       \<and> trace (snd (submit_jobs E S L j m))
           = trace m
             @ map (\<lambda>k. RunTask \<lparr>taskDefinition = td, cluster = cluster_name L,
                                  network_subnets = subs,
                                  command = base @ [''--pid='' @ str_int (int k)]\<rparr>)
                 [0..<nat (ntasks j)]"
proof -
  have t1: "trace m1 = trace m"
    using resolve_cluster_trace [of E L m] assms(1) by simp
  from launch_all_resolved [OF assms(3), of E L subs base "py_range (ntasks j)"]
  obtain tasks m2 where la: "launch_all E L subs base (py_range (ntasks j)) m1 = (Inr tasks, m2)"
    and tr: "trace m2 = trace m1 @ map (\<lambda>pid. RunTask (launch_request L td subs base pid)) (py_range (ntasks j))"
    by blast
  have "submit_jobs E S L j m = (Inr PNone, m2)"
    using assms(1,2,4,5) la by (simp add: submit_jobs_def Let_def)
  then show ?thesis
    using tr t1 by (simp add: py_range_def comp_def launch_request_def)
qed

theorem submit_jobs_no_wait_witness:
  "resolve_cluster mem_ecs (mem_libs [])
       (fresh (cluster_answering [provisioned ''task/0'', provisioned ''task/1'']))
     = (None, \<lparr>subnets = Some [''subnet-1''],
               task_definition = Some ''arn:aws:ecs:us-east-1:1:task-definition/app:1'',
               world = cluster_answering [provisioned ''task/0'', provisioned ''task/1''],
               trace = []\<rparr>)
   \<and> \<not> wait (scrape_job 2 False)
   \<and> fst (submit_jobs mem_ecs mem_storage (mem_libs []) (scrape_job 2 False)
         (fresh (cluster_answering [provisioned ''task/0'', provisioned ''task/1''])))
       = Inr PNone
   \<and> stops (trace (snd (submit_jobs mem_ecs mem_storage (mem_libs []) (scrape_job 2 False)
         (fresh (cluster_answering [provisioned ''task/0'', provisioned ''task/1''])))))
       = []"
proof -
  let ?w = "cluster_answering [provisioned ''task/0'', provisioned ''task/1'']"
  let ?m1 = "\<lparr>subnets = Some [''subnet-1''],
               task_definition = Some ''arn:aws:ecs:us-east-1:1:task-definition/app:1'',
               world = ?w, trace = []\<rparr>"
  have h1: "resolve_cluster mem_ecs (mem_libs []) (fresh ?w) = (None, ?m1)"
    by code_simp
  have h2: "subnets ?m1 = Some [''subnet-1'']"
    and h3: "task_definition ?m1 = Some ''arn:aws:ecs:us-east-1:1:task-definition/app:1''"
    by simp_all
  have h4: "\<not> wait (scrape_job 2 False)" by (simp add: scrape_job_def)
  have f: "trace (fresh ?w) = []" by (simp add: fresh_def)
  show ?thesis
    using submit_jobs_no_wait [OF h1 h2 h3 h4 refl, of mem_storage] h1 h4
    by (simp add: f)
qed

text \<open>
  The claim as it was stated fails: for two partitions whose launches both succeed the
  call returns None, which is not the list of the two launch results.
\<close>

theorem submit_jobs_no_wait_counterexample:
  "fst (submit_jobs mem_ecs mem_storage (mem_libs []) (scrape_job 2 False)
         (fresh (cluster_answering [provisioned ''task/0'', provisioned ''task/1''])))
     = Inr PNone
   \<and> fst (submit_jobs mem_ecs mem_storage (mem_libs []) (scrape_job 2 False)
         (fresh (cluster_answering [provisioned ''task/0'', provisioned ''task/1''])))
     \<noteq> Inr (PList [provisioned ''task/0'', provisioned ''task/1''])"
  by code_simp

text \<open>
  C1. Three partitions with \<^verbatim>\<open>wait\<close> true, the launch of partition 1 answering with no
  task handle and one failure entry: the call ends with a TypeError raised by the
  provisioning check (\<^verbatim>\<open>task["tasks"]["failures"]\<close> indexes a list with a string),
  not with the summary ValueError, and the two tasks that were provisioned are not
  stopped.
\<close>

theorem submit_jobs_provisioning_failure:
  "fst (submit_jobs mem_ecs mem_storage (mem_libs []) (scrape_job 3 True)
         (fresh (cluster_answering
            [provisioned ''task/0'', unprovisioned ''RESOURCE:MEMORY'', provisioned ''task/2''])))
     = Inl TypeError
   \<and> length (launches (trace (snd (submit_jobs mem_ecs mem_storage (mem_libs [])
         (scrape_job 3 True)
         (fresh (cluster_answering
            [provisioned ''task/0'', unprovisioned ''RESOURCE:MEMORY'', provisioned ''task/2'']))))))
     = 3
   \<and> stops (trace (snd (submit_jobs mem_ecs mem_storage (mem_libs []) (scrape_job 3 True)
         (fresh (cluster_answering
            [provisioned ''task/0'', unprovisioned ''RESOURCE:MEMORY'', provisioned ''task/2''])))))
     = []
   \<and> stopped (world (snd (submit_jobs mem_ecs mem_storage (mem_libs []) (scrape_job 3 True)
         (fresh (cluster_answering
            [provisioned ''task/0'', unprovisioned ''RESOURCE:MEMORY'', provisioned ''task/2''])))))
     = []"
  by code_simp

text \<open>
  C3. When the output folder exists and the glob for the JSON kind finds at least one
  file, each holding a JSON array or object, the reduction reads the files in sorted
  order of their names and writes one combined JSON file whose list is the concatenation,
  in that order, of the files' sequences: the elements of an array, and for an object its
  values with the false ones (None, False, zero, empty) dropped. The length of the
  combined list is the sum of the lengths of the sequences. The artifact is in the store:
  the JSON pass returns the combined file's name and leaves the store that the write of
  the combined text to that name produces, and the store at the end of the whole
  reduction is that store, or that store after the write of the combined CSV file; a
  reduction that returns, returns the combined JSON file's name.
\<close>

theorem combine_json_concatenation:
  assumes "aws_exists S L out (invalidate_cache S (world m)) = Inr True"
    and "files = sort (remote_glob S (invalidate_cache S (world m))
                         (out @ ''/'' @ (fl @ ''_results'') @ ''*'' @ ''.json''))"
    and "files \<noteq> []"
    and "\<forall>f \<in> set files. holds_sequence S L (invalidate_cache S (world m)) f"
    and "combined = concat (map (sequence_of S L (invalidate_cache S (world m))) files)"
    and "name = combined_filename L out (fl @ ''_results'') ''.json''"
    and "stored = remote_write S (invalidate_cache S (world m)) name (json_dumps L (PList combined))"
  shows "(\<exists>rest. trace (snd (combine_parallel_results S L fl ds out m))
            = trace m
              @ [Glob (out @ ''/'' @ (fl @ ''_results'') @ ''*'' @ ''.json'')]
              @ map Read files
              @ [Write (combined_filename L out (fl @ ''_results'') ''.json'')
                   (json_dumps L (PList combined))]
              @ rest)
       \<and> sorted files
       \<and> mset files = mset (remote_glob S (invalidate_cache S (world m))
                               (out @ ''/'' @ (fl @ ''_results'') @ ''*'' @ ''.json''))
       \<and> length combined
           = sum_list (map (\<lambda>f. length (sequence_of S L (invalidate_cache S (world m)) f)) files)
       \<and> fst (combine_kind S L fl ds out 0 (fl @ ''_results'') ''.json''
                (m\<lparr>world := invalidate_cache S (world m)\<rparr>)) = Inr name
       \<and> world (snd (combine_kind S L fl ds out 0 (fl @ ''_results'') ''.json''
                (m\<lparr>world := invalidate_cache S (world m)\<rparr>))) = stored
       \<and> (world (snd (combine_parallel_results S L fl ds out m)) = stored
            \<or> (\<exists>t. world (snd (combine_parallel_results S L fl ds out m))
                  = remote_write S stored (combined_filename L out (fl @ ''_input'') ''.csv'') t))
       \<and> (\<forall>v. fst (combine_parallel_results S L fl ds out m) = Inr v \<longrightarrow> v = PStr name)"
proof -
  let ?m0 = "m\<lparr>world := invalidate_cache S (world m)\<rparr>"
  let ?tg = "fl @ ''_results''"
  let ?name = "combined_filename L out ?tg ''.json''"
  have docs: "\<forall>f \<in> set files. \<exists>d. document S L (world ?m0) f = Inr d \<and> listlike d"
    using assms(4) holds_sequence_document by fastforce
  have comb: "PList combined
      = PList (concat (map (\<lambda>f. elements (projr (document S L (world ?m0) f))) files))"
    using assms(4,5) by (auto simp: sequence_of_document intro!: arg_cong [where f = concat])
  have files0: "files = sort (remote_glob S (world ?m0) (out @ ''/'' @ ?tg @ ''*.json''))"
    using assms(2) by simp
  note pass0 = combine_kind_json [OF files0 assms(3) docs comb refl, of fl ds 0]
  let ?m1 = "?m0\<lparr>world := remote_write S (world ?m0) ?name (json_dumps L (PList combined)),
             trace := trace ?m0 @ [Glob (out @ ''/'' @ ?tg @ ''*.json'')] @ map Read files
                        @ [Write ?name (json_dumps L (PList combined))]\<rparr>"
  let ?pass1 = "combine_kind S L fl ds out 1 (fl @ ''_input'') ''.csv'' ?m1"
  have w1: "world ?m1 = stored" by (simp add: assms(6,7))
  have whole: "combine_parallel_results S L fl ds out m
      = (case ?pass1 of (Inl e, m2) \<Rightarrow> (Inl e, m2) | (Inr _, m2) \<Rightarrow> (Inr (PStr name), m2))"
    using assms(1) pass0
    by (simp add: combine_parallel_results_def kinds_of_def Let_def assms(6)
          split: prod.splits sum.splits)
  have fin: "snd (combine_parallel_results S L fl ds out m) = snd ?pass1"
    unfolding whole by (simp split: prod.splits sum.splits)
  obtain rest where rest: "trace (snd ?pass1) = trace ?m1 @ rest"
    using combine_kind_trace [of S L fl ds out 1 "fl @ ''_input''" "''.csv''" ?m1] by blast
  have tr: "trace (snd (combine_parallel_results S L fl ds out m))
      = trace m @ [Glob (out @ ''/'' @ ?tg @ ''*'' @ ''.json'')] @ map Read files
          @ [Write ?name (json_dumps L (PList combined))] @ rest"
    unfolding fin rest by simp
  have len: "length combined
      = sum_list (map (\<lambda>f. length (sequence_of S L (invalidate_cache S (world m)) f)) files)"
    by (simp add: assms(5) length_concat comp_def)
  have p0: "fst (combine_kind S L fl ds out 0 ?tg ''.json'' ?m0) = Inr name"
    "world (snd (combine_kind S L fl ds out 0 ?tg ''.json'' ?m0)) = stored"
    using pass0 by (simp_all add: assms(6,7))
  have fw: "world (snd (combine_parallel_results S L fl ds out m)) = stored
      \<or> (\<exists>t. world (snd (combine_parallel_results S L fl ds out m))
            = remote_write S stored (combined_filename L out (fl @ ''_input'') ''.csv'') t)"
    unfolding fin
    using combine_kind_world [of S L fl ds out 1 "fl @ ''_input''" "''.csv''" ?m1]
    unfolding w1 .
  have ret: "\<forall>v. fst (combine_parallel_results S L fl ds out m) = Inr v \<longrightarrow> v = PStr name"
    unfolding whole by (auto split: prod.splits sum.splits)
  show ?thesis
    using tr len p0 fw ret assms(2) by auto
qed

theorem combine_json_concatenation_witness:
  "aws_exists mem_storage (mem_libs chunk_docs) ''s3://app/out/chunks''
       (invalidate_cache mem_storage (world (fresh chunks_a))) = Inr True
   \<and> sort (remote_glob mem_storage (invalidate_cache mem_storage (world (fresh chunks_a)))
             (''s3://app/out/chunks'' @ ''/'' @ (''ujs'' @ ''_results'') @ ''*'' @ ''.json''))
       = [''app/out/chunks/ujs_results_0.json'', ''app/out/chunks/ujs_results_1.json'']
   \<and> holds_sequence mem_storage (mem_libs chunk_docs)
         (invalidate_cache mem_storage (world (fresh chunks_a))) ''app/out/chunks/ujs_results_0.json''
   \<and> holds_sequence mem_storage (mem_libs chunk_docs)
         (invalidate_cache mem_storage (world (fresh chunks_a))) ''app/out/chunks/ujs_results_1.json''
   \<and> take 4 (trace (snd (combine_parallel_results mem_storage (mem_libs chunk_docs)
         ''ujs'' ''sample'' ''s3://app/out/chunks'' (fresh chunks_a))))
       = [Glob ''s3://app/out/chunks/ujs_results*.json'',
          Read ''app/out/chunks/ujs_results_0.json'',
          Read ''app/out/chunks/ujs_results_1.json'',
          Write ''s3://app/out/ujs_results.json'' ''[{x: 1}, {y: 2}, {z: 3}]'']
   \<and> remote_read mem_storage chunks_a ''s3://app/out/ujs_results.json''
       = Inl (FileNotFoundError ''s3://app/out/ujs_results.json'')
   \<and> remote_read mem_storage
         (world (snd (combine_kind mem_storage (mem_libs chunk_docs) ''ujs'' ''sample''
            ''s3://app/out/chunks'' 0 ''ujs_results'' ''.json'' (fresh chunks_a))))
         ''s3://app/out/ujs_results.json''
       = Inr ''[{x: 1}, {y: 2}, {z: 3}]''
   \<and> remote_read mem_storage
         (world (snd (combine_parallel_results mem_storage (mem_libs chunk_docs)
            ''ujs'' ''sample'' ''s3://app/out/chunks'' (fresh chunks_a))))
         ''s3://app/out/ujs_results.json''
       = Inr ''[{x: 1}, {y: 2}, {z: 3}]''
   \<and> fst (combine_parallel_results mem_storage (mem_libs chunk_docs)
         ''ujs'' ''sample'' ''s3://app/out/chunks'' (fresh chunks_a))
       = Inr (PStr ''s3://app/out/ujs_results.json'')"
proof -
  let ?S = mem_storage and ?L = "mem_libs chunk_docs"
  let ?w = "invalidate_cache mem_storage (world (fresh chunks_a))"
  let ?files = "[''app/out/chunks/ujs_results_0.json'', ''app/out/chunks/ujs_results_1.json'']"
  let ?run = "combine_parallel_results ?S ?L ''ujs'' ''sample'' ''s3://app/out/chunks''
                (fresh chunks_a)"
  have h1: "aws_exists ?S ?L ''s3://app/out/chunks'' ?w = Inr True"
    by code_simp
  have h2: "?files = sort (remote_glob ?S ?w
      (''s3://app/out/chunks'' @ ''/'' @ (''ujs'' @ ''_results'') @ ''*'' @ ''.json''))"
    by code_simp
  have h3: "?files \<noteq> []" by simp
  have h4: "\<forall>f \<in> set ?files. holds_sequence ?S ?L ?w f"
    by code_simp
  have h5: "[PDict [(''x'', PInt 1)], PDict [(''y'', PInt 2)], PDict [(''z'', PInt 3)]]
      = concat (map (sequence_of ?S ?L ?w) ?files)"
    by code_simp
  have d: "json_dumps ?L (PList [PDict [(''x'', PInt 1)], PDict [(''y'', PInt 2)], PDict [(''z'', PInt 3)]])
      = ''[{x: 1}, {y: 2}, {z: 3}]''"
    by code_simp
  have n: "combined_filename ?L ''s3://app/out/chunks'' (''ujs'' @ ''_results'') ''.json''
      = ''s3://app/out/ujs_results.json''"
    by code_simp
  have t: "trace (fresh chunks_a) = []" by (simp add: fresh_def)
  have w: "?w = chunks_a" "fresh chunks_a\<lparr>world := chunks_a\<rparr> = fresh chunks_a"
    by (simp_all add: mem_storage_def fresh_def)
  note T = combine_json_concatenation [OF h1 h2 h3 h4 h5 refl refl, of "''sample''"]
  from T obtain rest where "trace (snd ?run)
      = [Glob ''s3://app/out/chunks/ujs_results*.json'',
          Read ''app/out/chunks/ujs_results_0.json'',
          Read ''app/out/chunks/ujs_results_1.json'',
          Write ''s3://app/out/ujs_results.json'' ''[{x: 1}, {y: 2}, {z: 3}]''] @ rest"
    unfolding d n t by auto
  then have A: "take 4 (trace (snd ?run))
      = [Glob ''s3://app/out/chunks/ujs_results*.json'',
          Read ''app/out/chunks/ujs_results_0.json'',
          Read ''app/out/chunks/ujs_results_1.json'',
          Write ''s3://app/out/ujs_results.json'' ''[{x: 1}, {y: 2}, {z: 3}]'']"
    by simp
  from T have eq: "world (snd (combine_kind ?S ?L ''ujs'' ''sample'' ''s3://app/out/chunks'' 0
        (''ujs'' @ ''_results'') ''.json'' (fresh chunks_a\<lparr>world := ?w\<rparr>)))
      = remote_write ?S ?w ''s3://app/out/ujs_results.json'' ''[{x: 1}, {y: 2}, {z: 3}]''"
    unfolding d n by blast
  have R: "remote_read ?S
      (remote_write ?S ?w ''s3://app/out/ujs_results.json'' ''[{x: 1}, {y: 2}, {z: 3}]'')
      ''s3://app/out/ujs_results.json'' = Inr ''[{x: 1}, {y: 2}, {z: 3}]''"
    by code_simp
  have B: "remote_read ?S
         (world (snd (combine_kind ?S ?L ''ujs'' ''sample''
            ''s3://app/out/chunks'' 0 ''ujs_results'' ''.json'' (fresh chunks_a))))
         ''s3://app/out/ujs_results.json'' = Inr ''[{x: 1}, {y: 2}, {z: 3}]''"
    using eq R unfolding w by simp
  have C: "remote_read ?S chunks_a ''s3://app/out/ujs_results.json''
       = Inl (FileNotFoundError ''s3://app/out/ujs_results.json'')"
    by code_simp
  have D: "remote_read ?S (world (snd ?run)) ''s3://app/out/ujs_results.json''
       = Inr ''[{x: 1}, {y: 2}, {z: 3}]''"
    by code_simp
  have F: "fst ?run = Inr (PStr ''s3://app/out/ujs_results.json'')"
    by code_simp
  show ?thesis
    using h1 h2 [symmetric] h4 A B C D F by simp
qed

text \<open>
  C6. With the output folder in place, a kind whose glob finds no file ends the
  reduction with the ValueError ``No files found ...'' and nothing is written for that
  kind. When the JSON kind fails, the CSV kind is not attempted: the only request sent is
  the JSON glob and the store is as before. When the JSON kind went through and the CSV
  kind finds no file, the state is the one the JSON pass left, plus the CSV glob.
\<close>

theorem combine_no_partition_files:
  assumes "aws_exists S L out (invalidate_cache S (world m)) = Inr True"
    and "m0 = m\<lparr>world := invalidate_cache S (world m)\<rparr>"
    and "json = out @ ''/'' @ (fl @ ''_results'') @ ''*'' @ ''.json''"
    and "csv = out @ ''/'' @ (fl @ ''_input'') @ ''*'' @ ''.csv''"
  shows "(remote_glob S (world m0) json = [] \<longrightarrow>
            combine_parallel_results S L fl ds out m
              = (Inl (ValueError (no_files_message ds fl out)), m0\<lparr>trace := trace m @ [Glob json]\<rparr>))
       \<and> (\<forall>name m1.
            combine_kind S L fl ds out 0 (fl @ ''_results'') ''.json'' m0 = (Inr name, m1)
            \<and> remote_glob S (world m1) csv = [] \<longrightarrow>
            combine_parallel_results S L fl ds out m
              = (Inl (ValueError (no_files_message ds fl out)), m1\<lparr>trace := trace m1 @ [Glob csv]\<rparr>))"
proof (intro conjI impI allI)
  assume "remote_glob S (world m0) json = []"
  then have "combine_kind S L fl ds out 0 (fl @ ''_results'') ''.json'' m0
      = (Inl (ValueError (no_files_message ds fl out)), emit (Glob json) m0)"
    unfolding assms(3) by (rule combine_kind_no_files)
  then show "combine_parallel_results S L fl ds out m
      = (Inl (ValueError (no_files_message ds fl out)), m0\<lparr>trace := trace m @ [Glob json]\<rparr>)"
    using assms(1) unfolding assms(2)
    by (simp add: combine_parallel_results_def kinds_of_def Let_def emit_def)
next
  fix name m1
  assume a: "combine_kind S L fl ds out 0 (fl @ ''_results'') ''.json'' m0 = (Inr name, m1)
      \<and> remote_glob S (world m1) csv = []"
  then have "combine_kind S L fl ds out 1 (fl @ ''_input'') ''.csv'' m1
      = (Inl (ValueError (no_files_message ds fl out)), emit (Glob csv) m1)"
    unfolding assms(4) by (intro combine_kind_no_files) simp
  with a show "combine_parallel_results S L fl ds out m
      = (Inl (ValueError (no_files_message ds fl out)), m1\<lparr>trace := trace m1 @ [Glob csv]\<rparr>)"
    using assms(1) unfolding assms(2)
    by (simp add: combine_parallel_results_def kinds_of_def Let_def emit_def)
qed

theorem combine_no_partition_files_witness:
  "aws_exists mem_storage (mem_libs chunk_docs) ''s3://app/out/chunks''
       (invalidate_cache mem_storage (world (fresh chunks_without_json))) = Inr True
   \<and> remote_glob mem_storage (invalidate_cache mem_storage (world (fresh chunks_without_json)))
         ''s3://app/out/chunks/ujs_results*.json'' = []
   \<and> combine_parallel_results mem_storage (mem_libs chunk_docs) ''ujs'' ''sample''
         ''s3://app/out/chunks'' (fresh chunks_without_json)
       = (Inl (ValueError (no_files_message ''sample'' ''ujs'' ''s3://app/out/chunks'')),
          \<lparr>subnets = None, task_definition = None, world = chunks_without_json,
           trace = [Glob ''s3://app/out/chunks/ujs_results*.json'']\<rparr>)
   \<and> aws_exists mem_storage (mem_libs chunk_docs) ''s3://app/out/chunks''
       (invalidate_cache mem_storage (world (fresh chunks_without_csv))) = Inr True
   \<and> fst (combine_kind mem_storage (mem_libs chunk_docs) ''ujs'' ''sample''
         ''s3://app/out/chunks'' 0 ''ujs_results'' ''.json'' (fresh chunks_without_csv))
       = Inr ''s3://app/out/ujs_results.json''
   \<and> remote_glob mem_storage
         (world (snd (combine_kind mem_storage (mem_libs chunk_docs) ''ujs'' ''sample''
            ''s3://app/out/chunks'' 0 ''ujs_results'' ''.json'' (fresh chunks_without_csv))))
         ''s3://app/out/chunks/ujs_input*.csv'' = []
   \<and> fst (combine_parallel_results mem_storage (mem_libs chunk_docs) ''ujs'' ''sample''
         ''s3://app/out/chunks'' (fresh chunks_without_csv))
       = Inl (ValueError (no_files_message ''sample'' ''ujs'' ''s3://app/out/chunks''))
   \<and> trace (snd (combine_parallel_results mem_storage (mem_libs chunk_docs) ''ujs'' ''sample''
         ''s3://app/out/chunks'' (fresh chunks_without_csv)))
       = [Glob ''s3://app/out/chunks/ujs_results*.json'',
          Read ''app/out/chunks/ujs_results_0.json'',
          Write ''s3://app/out/ujs_results.json'' ''[{y: 2}, {z: 3}]'',
          Glob ''s3://app/out/chunks/ujs_input*.csv'']"
proof -
  let ?S = mem_storage and ?L = "mem_libs chunk_docs"
  let ?a = "fresh chunks_without_json" and ?b = "fresh chunks_without_csv"
  have c: "invalidate_cache ?S = (\<lambda>w. w)" by (simp add: mem_storage_def)
  have ida: "?a\<lparr>world := world ?a\<rparr> = ?a" and idb: "?b\<lparr>world := world ?b\<rparr> = ?b" by simp_all
  have a1: "aws_exists ?S ?L ''s3://app/out/chunks'' (invalidate_cache ?S (world ?a)) = Inr True"
    by code_simp
  have a2: "remote_glob ?S (world ?a) ''s3://app/out/chunks/ujs_results*.json'' = []"
    by code_simp
  have a3: "?a\<lparr>trace := trace ?a @ [Glob ''s3://app/out/chunks/ujs_results*.json'']\<rparr>
      = \<lparr>subnets = None, task_definition = None, world = chunks_without_json,
         trace = [Glob ''s3://app/out/chunks/ujs_results*.json'']\<rparr>"
    by (simp add: fresh_def)
  have b1: "aws_exists ?S ?L ''s3://app/out/chunks'' (invalidate_cache ?S (world ?b)) = Inr True"
    by code_simp
  obtain m1 where b2: "combine_kind ?S ?L ''ujs'' ''sample'' ''s3://app/out/chunks'' 0
      ''ujs_results'' ''.json'' ?b = (Inr ''s3://app/out/ujs_results.json'', m1)"
    and m1: "m1 = snd (combine_kind ?S ?L ''ujs'' ''sample'' ''s3://app/out/chunks'' 0
      ''ujs_results'' ''.json'' ?b)"
  proof -
    have "fst (combine_kind ?S ?L ''ujs'' ''sample'' ''s3://app/out/chunks'' 0
      ''ujs_results'' ''.json'' ?b) = Inr ''s3://app/out/ujs_results.json''"
      by code_simp
    then show ?thesis using that by (metis prod.collapse)
  qed
  have b3: "remote_glob ?S (world m1) ''s3://app/out/chunks/ujs_input*.csv'' = []"
    unfolding m1 by code_simp
  have b4: "trace m1 = [Glob ''s3://app/out/chunks/ujs_results*.json'',
          Read ''app/out/chunks/ujs_results_0.json'',
          Write ''s3://app/out/ujs_results.json'' ''[{y: 2}, {z: 3}]'']"
    unfolding m1 by code_simp
  have A: "combine_parallel_results ?S ?L ''ujs'' ''sample'' ''s3://app/out/chunks'' ?a
      = (Inl (ValueError (no_files_message ''sample'' ''ujs'' ''s3://app/out/chunks'')),
          \<lparr>subnets = None, task_definition = None, world = chunks_without_json,
           trace = [Glob ''s3://app/out/chunks/ujs_results*.json'']\<rparr>)"
    using combine_no_partition_files [OF a1 refl refl refl, of "''ujs''" "''sample''"] a2 a3
    by (simp add: c ida)
  have B: "combine_parallel_results ?S ?L ''ujs'' ''sample'' ''s3://app/out/chunks'' ?b
      = (Inl (ValueError (no_files_message ''sample'' ''ujs'' ''s3://app/out/chunks'')),
         m1\<lparr>trace := trace m1 @ [Glob ''s3://app/out/chunks/ujs_input*.csv'']\<rparr>)"
    using combine_no_partition_files [OF b1 refl refl refl, of "''ujs''" "''sample''"] b2 b3
    by (simp add: c idb)
  show ?thesis
    using a1 a2 A b1 b2 b3 B b4 by (simp add: c m1 [symmetric])
qed

text \<open>
  C8, as amended. The destination path of a source file is \<open>dest\<close>, a slash, and the
  file's path without its first segment (the bucket of a remote file, the first directory
  below \<open>HOME_DIR\<close> of a local one). It is the file's path relative to the source root,
  re-rooted under \<open>dest\<close>, when the source root is that one segment.
\<close>

theorem dest_file_first_segment:
  assumes "CHR ''/'' \<notin> set seg"
  shows "dest_file_of dest (seg @ ''/'' @ rest) = dest @ ''/'' @ rest
       \<and> dest_file_of dest (seg @ ''/'' @ rest) = mirror_path seg dest (seg @ ''/'' @ rest)"
  using source_file_key_segment [OF assms, of rest]
  by (simp add: dest_file_of_def mirror_path_def)

theorem dest_file_first_segment_witness:
  "CHR ''/'' \<notin> set ''bucket''
   \<and> dest_file_of ''b'' ''bucket/a/x.txt'' = ''b/a/x.txt''
   \<and> dest_file_of ''b'' ''bucket/a/x.txt'' = mirror_path ''bucket'' ''b'' ''bucket/a/x.txt''"
  using dest_file_first_segment [of "''bucket''" "''b''" "''a/x.txt''"]
  by (simp add: mirror_path_def)

text \<open>
  The claim as it was stated fails for a deeper source root: for the source
  \<^verbatim>\<open>s3://bucket/a\<close> and the destination \<^verbatim>\<open>/home/u/b\<close> the file \<^verbatim>\<open>bucket/a/x.txt\<close> goes to
  \<^verbatim>\<open>b/a/x.txt\<close>, not to \<^verbatim>\<open>b/x.txt\<close>.
\<close>

theorem dest_file_mirror_counterexample:
  "remote_find mem_storage (cloud_with [(''bucket/a/x.txt'', 1, ''x'')] []) ''s3://bucket/a''
     = [''bucket/a/x.txt'']
   \<and> copies (trace (snd (sync mem_storage (mem_libs []) ''s3://bucket/a'' ''/home/u/b'' False
         (fresh (cloud_with [(''bucket/a/x.txt'', 1, ''x'')] [])))))
     = [Get ''bucket/a/x.txt'' ''/home/u/b/a/x.txt'']
   \<and> dest_file_of ''b'' ''bucket/a/x.txt'' = ''b/a/x.txt''
   \<and> mirror_path ''bucket/a'' ''b'' ''bucket/a/x.txt'' = ''b/x.txt''
   \<and> dest_file_of ''b'' ''bucket/a/x.txt'' \<noteq> mirror_path ''bucket/a'' ''b'' ''bucket/a/x.txt''"
  by code_simp




text \<open>
  C5. Uploading the directory \<^verbatim>\<open>/home/u/data\<close> to \<^verbatim>\<open>s3://bucket\<close> twice in a row: the
  first run uploads \<^verbatim>\<open>x.txt\<close>, and the second run, started on the state the first one
  left and with the source untouched, uploads it again. The existence test of line 397
  looks for the destination \<^verbatim>\<open>s3://bucket/x.txt\<close> on the local disk, where it never is.
\<close>

theorem sync_upload_not_idempotent:
  "sync mem_storage (mem_libs []) ''/home/u/data'' ''s3://bucket'' False
     (fresh (cloud_with [] [(''/home/u/data/x.txt'', 1, ''old'')]))
   = (None,
      \<lparr>subnets = None, task_definition = None,
       world = \<lparr>objects = [(''bucket/x.txt'', \<lparr>mtime = 10, body = ''old''\<rparr>)],
                disk = [(''/home/u/data/x.txt'', \<lparr>mtime = 1, body = ''old''\<rparr>)],
                clock = 11, answers = [], stopped = []\<rparr>,
       trace = [Put ''/home/u/data/x.txt'' ''s3://bucket/x.txt'']\<rparr>)
   \<and> copies (trace (snd (sync mem_storage (mem_libs []) ''/home/u/data'' ''s3://bucket'' False
        (fresh \<lparr>objects = [(''bucket/x.txt'', \<lparr>mtime = 10, body = ''old''\<rparr>)],
                disk = [(''/home/u/data/x.txt'', \<lparr>mtime = 1, body = ''old''\<rparr>)],
                clock = 11, answers = [], stopped = []\<rparr>))))
     = [Put ''/home/u/data/x.txt'' ''s3://bucket/x.txt'']"
  by code_simp

text \<open>
  C9. Uploading \<^verbatim>\<open>/home/u/data\<close>, whose file \<^verbatim>\<open>x.txt\<close> was modified at time 1, to a bucket
  whose \<^verbatim>\<open>x.txt\<close> was modified at time 5: the bucket's newer file is overwritten with
  the older text.
\<close>

theorem sync_upload_overwrites_newer:
  "remote_read mem_storage upload_example ''s3://bucket/x.txt'' = Inr ''new''
   \<and> remote_modified mem_storage upload_example ''s3://bucket/x.txt'' = Inr 5
   \<and> local_modified mem_storage upload_example ''data/x.txt'' = Inr 1
   \<and> trace (snd (sync mem_storage (mem_libs []) ''/home/u/data'' ''s3://bucket'' False
         (fresh upload_example)))
     = [Put ''/home/u/data/x.txt'' ''s3://bucket/x.txt'']
   \<and> remote_read mem_storage
         (world (snd (sync mem_storage (mem_libs []) ''/home/u/data'' ''s3://bucket'' False
            (fresh upload_example))))
         ''s3://bucket/x.txt''
     = Inr ''old''"
  by code_simp

end
